theory Spec2Isabelle
  imports Main
begin

section \<open>Python strings as lists of code points\<close>

text \<open>
  A Python \<^verbatim>\<open>str\<close> is a sequence of Unicode code points and \<^verbatim>\<open>len\<close> counts code
  points, so a string is modelled as a list of code-point numbers.  ASCII literals of the
  source are written with \<open>cp\<close>; other characters are given by their code point.
\<close>

type_synonym ustring = "nat list"

definition cp :: "string \<Rightarrow> ustring" where
  "cp s = map of_char s"

section \<open>notify.py: head/tail truncation\<close>

text \<open>
  Python slices \<^verbatim>\<open>text[:i]\<close> and \<^verbatim>\<open>text[i:]\<close> for an arbitrary integer \<open>i\<close>: a negative index
  counts from the end, and out-of-range indices are clamped.  In particular \<^verbatim>\<open>text[-0:]\<close>
  is \<^verbatim>\<open>text[0:]\<close>, the whole string.
\<close>

definition slice_to :: "'a list \<Rightarrow> int \<Rightarrow> 'a list" where
  "slice_to xs i = (if 0 \<le> i then take (nat i) xs else take (length xs - nat (- i)) xs)"

definition slice_from :: "'a list \<Rightarrow> int \<Rightarrow> 'a list" where
  "slice_from xs i = (if 0 \<le> i then drop (nat i) xs else drop (length xs - nat (- i)) xs)"

definition marker :: ustring where
  "marker = [10, 10, 8230] @ cp '' [truncated] '' @ [8230, 10, 10]"

definition truncate_message :: "ustring \<Rightarrow> int \<Rightarrow> ustring" where
  "truncate_message text max_length =
     (if int (length text) \<le> max_length then text
      else let available = max_length - int (length marker);
               head = available * 2 div 3;
               tail = available - head
           in slice_to text head @ marker @ slice_from text (- tail))"

section \<open>Text primitives of the Python library\<close>

text \<open>
  \<^verbatim>\<open>str.isspace\<close>, which is also the class \<^verbatim>\<open>\s\<close> of \<^verbatim>\<open>re\<close> on \<^verbatim>\<open>str\<close> patterns.
\<close>

definition isspace :: "nat \<Rightarrow> bool" where
  "isspace c \<longleftrightarrow>
     (9 \<le> c \<and> c \<le> 13) \<or> (28 \<le> c \<and> c \<le> 32) \<or> c = 133 \<or> c = 160 \<or> c = 5760 \<or>
     (8192 \<le> c \<and> c \<le> 8202) \<or> c = 8232 \<or> c = 8233 \<or> c = 8239 \<or> c = 8287 \<or> c = 12288"

definition lstrip :: "ustring \<Rightarrow> ustring" where
  "lstrip s = dropWhile isspace s"

definition rstrip :: "ustring \<Rightarrow> ustring" where
  "rstrip s = rev (dropWhile isspace (rev s))"

definition strip :: "ustring \<Rightarrow> ustring" where
  "strip s = lstrip (rstrip s)"

text \<open>\<^verbatim>\<open>s.rstrip(".")\<close>\<close>

definition rstrip_dot :: "ustring \<Rightarrow> ustring" where
  "rstrip_dot s = rev (dropWhile (\<lambda>c. c = 46) (rev s))"

text \<open>
  \<^verbatim>\<open>str.splitlines\<close>: the line boundaries are LF, VT, FF, CR, FS, GS, RS, NEL, LS and PS,
  CR LF counts as one boundary, and no empty line follows a final boundary.
\<close>

definition linebreak :: "nat \<Rightarrow> bool" where
  "linebreak c \<longleftrightarrow> (10 \<le> c \<and> c \<le> 13) \<or> (28 \<le> c \<and> c \<le> 30) \<or> c = 133 \<or> c = 8232 \<or> c = 8233"

fun splitlines_from :: "ustring \<Rightarrow> ustring \<Rightarrow> ustring list" where
  "splitlines_from cur [] = (if cur = [] then [] else [cur])"
| "splitlines_from cur [c] = (if linebreak c then [cur] else [cur @ [c]])"
| "splitlines_from cur (c # d # cs) =
     (if c = 13 \<and> d = 10 then cur # splitlines_from [] cs
      else if linebreak c then cur # splitlines_from [] (d # cs)
      else splitlines_from (cur @ [c]) (d # cs))"

definition splitlines :: "ustring \<Rightarrow> ustring list" where
  "splitlines s = splitlines_from [] s"

text \<open>\<^verbatim>\<open>sep.join(xs)\<close>\<close>

fun join :: "ustring \<Rightarrow> ustring list \<Rightarrow> ustring" where
  "join sep [] = []"
| "join sep [x] = x"
| "join sep (x # y # ys) = x @ sep @ join sep (y # ys)"

text \<open>\<^verbatim>\<open>str(n)\<close> for a non-negative integer.\<close>

fun str_nat :: "nat \<Rightarrow> ustring" where
  "str_nat n = (if n < 10 then [48 + n] else str_nat (n div 10) @ [48 + n mod 10])"

declare str_nat.simps [simp del]

text \<open>
  The data of the \<^verbatim>\<open>unicodedata\<close> and \<^verbatim>\<open>hashlib\<close> modules that the program consults.
  Below U+00A0 the categories are the same in every version of the Unicode database: the
  control characters (category Cc) are U+0000..U+001F and U+007F..U+009F, no other character
  there has a category that starts with C, and the only decimal digits (category Nd) are
  0-9.  From U+00A0 on, which characters are of category Cf, Cs, Co or Cn, and which are
  decimal digits, depends on the database and is a parameter.  MD5 is a parameter as well.
\<close>

record library =
  other_category_C :: "nat \<Rightarrow> bool"
  other_decimal :: "nat \<Rightarrow> bool"
  md5_hexdigest :: "ustring \<Rightarrow> ustring"

text \<open>\<^verbatim>\<open>unicodedata.category(ch).startswith("C")\<close>\<close>

definition category_C :: "library \<Rightarrow> nat \<Rightarrow> bool" where
  "category_C lib c \<longleftrightarrow> c < 32 \<or> (127 \<le> c \<and> c \<le> 159) \<or> (160 \<le> c \<and> other_category_C lib c)"

text \<open>The class \<^verbatim>\<open>\d\<close> of \<^verbatim>\<open>re\<close> on \<^verbatim>\<open>str\<close> patterns: the decimal digits (category Nd).\<close>

definition isdecimal :: "library \<Rightarrow> nat \<Rightarrow> bool" where
  "isdecimal lib c \<longleftrightarrow> (48 \<le> c \<and> c \<le> 57) \<or> (128 \<le> c \<and> other_decimal lib c)"

section \<open>Regular expressions of poll.py and tmux\_utils.py\<close>

subsection \<open>Case-insensitive literals\<close>

text \<open>
  Under \<^verbatim>\<open>re.IGNORECASE\<close> a literal pattern character matches a text character when their
  lower-case forms agree; in addition \<^verbatim>\<open>i\<close> matches U+0131 and \<^verbatim>\<open>s\<close> matches U+017F.  The
  patterns of the program are ASCII, so the lower-case map is needed only where its value
  is ASCII: on A-Z, on U+0130 (lower-case \<^verbatim>\<open>i\<close>) and on U+212A (lower-case \<^verbatim>\<open>k\<close>).
\<close>

definition lower :: "nat \<Rightarrow> nat" where
  "lower c = (if 65 \<le> c \<and> c \<le> 90 then c + 32 else if c = 304 then 105 else if c = 8490 then 107 else c)"

definition ci_eq :: "nat \<Rightarrow> nat \<Rightarrow> bool" where
  "ci_eq p c \<longleftrightarrow> lower c = lower p \<or> (lower p = 105 \<and> c = 305) \<or> (lower p = 115 \<and> c = 383)"

text \<open>A literal at the start of the text: the text after it, when it matches.\<close>

fun ci_prefix :: "ustring \<Rightarrow> ustring \<Rightarrow> ustring option" where
  "ci_prefix [] t = Some t"
| "ci_prefix (p # ps) [] = None"
| "ci_prefix (p # ps) (c # cs) = (if ci_eq p c then ci_prefix ps cs else None)"

text \<open>
  \<^verbatim>\<open>.*\<close> followed by a literal.  The dot matches every character but LF, so the literal is
  looked for up to the end of the line; the first occurrence leaves the most text to what
  follows in the pattern, so it decides whether the whole pattern can match.
\<close>

fun dotstar_lit :: "ustring \<Rightarrow> ustring \<Rightarrow> ustring option" where
  "dotstar_lit p [] = ci_prefix p []"
| "dotstar_lit p (c # cs) =
     (case ci_prefix p (c # cs) of
        Some r \<Rightarrow> Some r
      | None \<Rightarrow> if c = 10 then None else dotstar_lit p cs)"

text \<open>One alternative \<^verbatim>\<open>A.*B.*C\<close> (a list of literals) at the start of the text.\<close>

fun dotstar_seq :: "ustring list \<Rightarrow> ustring \<Rightarrow> bool" where
  "dotstar_seq [] t = True"
| "dotstar_seq (p # ps) t = (case dotstar_lit p t of None \<Rightarrow> False | Some r \<Rightarrow> dotstar_seq ps r)"

fun alternative :: "ustring list \<Rightarrow> ustring \<Rightarrow> bool" where
  "alternative [] t = True"
| "alternative (p # ps) t = (case ci_prefix p t of None \<Rightarrow> False | Some r \<Rightarrow> dotstar_seq ps r)"

text \<open>\<^verbatim>\<open>pattern.search(text)\<close> as a truth value: the pattern is tried at every position.\<close>

fun re_search :: "(ustring \<Rightarrow> bool) \<Rightarrow> ustring \<Rightarrow> bool" where
  "re_search m [] = m []"
| "re_search m (c # cs) = (m (c # cs) \<or> re_search m cs)"

definition PROMPT_DETECT_RE :: "ustring \<Rightarrow> bool" where
  "PROMPT_DETECT_RE t \<longleftrightarrow>
     alternative [cp ''Enter to select'', cp ''to navigate'', cp ''Esc to cancel''] t \<or>
     alternative [cp ''Enter to confirm'', cp ''Esc to cancel''] t \<or>
     alternative [cp ''Esc to cancel'', cp ''Tab to amend''] t \<or>
     alternative [cp ''Do you want to allow''] t"

definition SELECTOR_RE :: "ustring \<Rightarrow> bool" where
  "SELECTOR_RE t \<longleftrightarrow>
     alternative [cp ''Enter to select'', cp ''to navigate'', cp ''Esc to cancel''] t \<or>
     alternative [cp ''Enter to confirm'', cp ''Esc to cancel''] t \<or>
     alternative [cp ''Esc to cancel'', cp ''Tab to amend''] t"

definition RATELIMIT_RE :: "ustring \<Rightarrow> bool" where
  "RATELIMIT_RE t \<longleftrightarrow>
     alternative [cp ''hit your limit''] t \<or>
     alternative [cp ''usage limit reached''] t \<or>
     alternative [cp ''limit will reset''] t \<or>
     alternative [cp ''/upgrade to increase''] t"

subsection \<open>\<^verbatim>\<open>INPUT_PROMPT_RE\<close> (tmux\_utils.py)\<close>

text \<open>
  \<^verbatim>\<open>^[\s]*[>]\s*$\<close> with \<^verbatim>\<open>re.MULTILINE\<close>, the class holding U+276F and \<^verbatim>\<open>>\<close>: it is found
  exactly when some LF-delimited line consists of white space, one of the two prompt glyphs,
  and white space.
\<close>

fun split_lf_from :: "ustring \<Rightarrow> ustring \<Rightarrow> ustring list" where
  "split_lf_from cur [] = [cur]"
| "split_lf_from cur (c # cs) =
     (if c = 10 then cur # split_lf_from [] cs else split_lf_from (cur @ [c]) cs)"

definition bare_prompt_line :: "ustring \<Rightarrow> bool" where
  "bare_prompt_line l =
     (case dropWhile isspace l of
        [] \<Rightarrow> False
      | g # r \<Rightarrow> (g = 10095 \<or> g = 62) \<and> list_all isspace r)"

definition INPUT_PROMPT_RE :: "ustring \<Rightarrow> bool" where
  "INPUT_PROMPT_RE t = list_ex bare_prompt_line (split_lf_from [] t)"

subsection \<open>\<^verbatim>\<open>ANSI_RE\<close> and \<^verbatim>\<open>sanitize_text\<close>\<close>

text \<open>
  The three alternatives of \<^verbatim>\<open>ANSI_RE\<close> after the ESC character that starts each of them, as
  the number of characters they match:
  \<^verbatim>\<open>\[[0-9;]*[a-zA-Z]\<close>, \<^verbatim>\<open>\].*?\x07\<close> and \<^verbatim>\<open>[()][0-9A-B]\<close>.
\<close>

definition csi_param :: "nat \<Rightarrow> bool" where
  "csi_param d \<longleftrightarrow> (48 \<le> d \<and> d \<le> 57) \<or> d = 59"

definition ascii_letter :: "nat \<Rightarrow> bool" where
  "ascii_letter d \<longleftrightarrow> (97 \<le> d \<and> d \<le> 122) \<or> (65 \<le> d \<and> d \<le> 90)"

definition ansi_csi :: "ustring \<Rightarrow> nat option" where
  "ansi_csi t =
     (case t of
        [] \<Rightarrow> None
      | c # cs \<Rightarrow>
          if c \<noteq> 91 then None
          else (case dropWhile csi_param cs of
                  [] \<Rightarrow> None
                | e # r \<Rightarrow> if ascii_letter e then Some (length (takeWhile csi_param cs) + 2) else None))"

definition ansi_osc :: "ustring \<Rightarrow> nat option" where
  "ansi_osc t =
     (case t of
        [] \<Rightarrow> None
      | c # cs \<Rightarrow>
          if c \<noteq> 93 then None
          else (case dropWhile (\<lambda>d. d \<noteq> 7 \<and> d \<noteq> 10) cs of
                  [] \<Rightarrow> None
                | e # r \<Rightarrow>
                    if e = 7 then Some (length (takeWhile (\<lambda>d. d \<noteq> 7 \<and> d \<noteq> 10) cs) + 2)
                    else None))"

definition ansi_charset :: "ustring \<Rightarrow> nat option" where
  "ansi_charset t =
     (case t of
        c # d # r \<Rightarrow>
          if (c = 40 \<or> c = 41) \<and> ((48 \<le> d \<and> d \<le> 57) \<or> d = 65 \<or> d = 66) then Some 2 else None
      | _ \<Rightarrow> None)"

definition ANSI_RE_after_esc :: "ustring \<Rightarrow> nat option" where
  "ANSI_RE_after_esc t =
     (case ansi_csi t of
        Some n \<Rightarrow> Some n
      | None \<Rightarrow> (case ansi_osc t of Some n \<Rightarrow> Some n | None \<Rightarrow> ansi_charset t))"

text \<open>\<^verbatim>\<open>ANSI_RE.sub("", text)\<close>: every match, found from left to right, is removed.\<close>

fun ANSI_RE_sub :: "ustring \<Rightarrow> ustring" where
  "ANSI_RE_sub [] = []"
| "ANSI_RE_sub (c # cs) =
     (if c = 27
      then (case ANSI_RE_after_esc cs of
              Some n \<Rightarrow> ANSI_RE_sub (drop n cs)
            | None \<Rightarrow> c # ANSI_RE_sub cs)
      else c # ANSI_RE_sub cs)"

definition sanitize_text :: "library \<Rightarrow> ustring \<Rightarrow> ustring" where
  "sanitize_text lib text =
     filter (\<lambda>ch. ch = 10 \<or> ch = 9 \<or> \<not> category_C lib ch) (ANSI_RE_sub text)"

subsection \<open>\<^verbatim>\<open>OPTION_RE\<close> and the prompt parser\<close>

text \<open>
  \<^verbatim>\<open>OPTION_RE.match(line)\<close> for \<^verbatim>\<open>^[\s>]*(\d+)\.\s+(.+)$\<close> (the first class also holds U+276F),
  giving the two groups.  The program applies it only to elements of \<^verbatim>\<open>splitlines()\<close>, which
  hold no line boundary, and the model is for such lines: the greedy runs of the first class
  and of the digits are maximal because what follows each lies outside the class; the white
  space after the dot is taken greedily, and when it reaches the end of the line it gives its
  last character back to \<^verbatim>\<open>(.+)\<close>.
\<close>

definition option_lead :: "nat \<Rightarrow> bool" where
  "option_lead c \<longleftrightarrow> isspace c \<or> c = 10095 \<or> c = 62"

definition OPTION_RE_match :: "library \<Rightarrow> ustring \<Rightarrow> (ustring \<times> ustring) option" where
  "OPTION_RE_match lib line =
     (let r0 = dropWhile option_lead line;
          g1 = takeWhile (isdecimal lib) r0
      in if g1 = [] then None
         else (case dropWhile (isdecimal lib) r0 of
                 [] \<Rightarrow> None
               | d # r2 \<Rightarrow>
                   if d \<noteq> 46 then None
                   else let ws = takeWhile isspace r2; r3 = dropWhile isspace r2
                        in if ws = [] then None
                           else if r3 \<noteq> [] then Some (g1, r3)
                           else if 2 \<le> length ws then Some (g1, [last ws])
                           else None))"

text \<open>\<^verbatim>\<open>all(c in "..." for c in stripped)\<close> with the separator characters U+2500, U+2501, - and \_.\<close>

definition separator_char :: "nat \<Rightarrow> bool" where
  "separator_char c \<longleftrightarrow> c = 9472 \<or> c = 9473 \<or> c = 45 \<or> c = 95"

record prompt_parts =
  question :: "ustring option"
  options :: "ustring list"

text \<open>
  The first loop of \<^verbatim>\<open>parse_prompt_parts\<close>, from line index \<open>i\<close> on, with the options collected
  so far and the index of the first option line.
\<close>

fun collect_options ::
  "library \<Rightarrow> nat \<Rightarrow> ustring list \<Rightarrow> ustring list \<Rightarrow> nat option \<Rightarrow> ustring list \<times> nat option" where
  "collect_options lib i [] opts first_option_idx = (opts, first_option_idx)"
| "collect_options lib i (line # rest) opts first_option_idx =
     (let stripped = strip line in
      if stripped = [] \<or> list_all separator_char stripped
      then collect_options lib (Suc i) rest opts first_option_idx
      else if re_search SELECTOR_RE stripped
      then collect_options lib (Suc i) rest opts first_option_idx
      else (case OPTION_RE_match lib line of
              Some (g1, g2) \<Rightarrow>
                collect_options lib (Suc i) rest (opts @ [g1 @ cp ''. '' @ strip g2])
                  (if first_option_idx = None then Some i else first_option_idx)
            | None \<Rightarrow> collect_options lib (Suc i) rest opts first_option_idx))"

text \<open>
  The second loop, over the lines above the first option from the nearest one upwards;
  \<^verbatim>\<open>re.sub(r'^[?>\s]+', '', stripped)\<close> (the class also holds U+2753 and U+276F) drops the
  leading run of the class.
\<close>

definition question_lead :: "nat \<Rightarrow> bool" where
  "question_lead c \<longleftrightarrow> c = 10067 \<or> c = 10095 \<or> c = 62 \<or> c = 63 \<or> isspace c"

fun find_question :: "library \<Rightarrow> ustring list \<Rightarrow> ustring option" where
  "find_question lib [] = None"
| "find_question lib (line # earlier) =
     (let stripped = strip line in
      if stripped = [] \<or> list_all separator_char stripped then find_question lib earlier
      else if OPTION_RE_match lib line \<noteq> None then find_question lib earlier
      else let cleaned = strip (dropWhile question_lead stripped)
           in if cleaned \<noteq> [] \<and> 5 < length cleaned then Some cleaned
              else find_question lib earlier)"

definition parse_prompt_parts :: "library \<Rightarrow> ustring \<Rightarrow> prompt_parts option" where
  "parse_prompt_parts lib screen =
     (let lines = splitlines (sanitize_text lib screen) in
      case collect_options lib 0 lines [] None of
        (opts, first_option_idx) \<Rightarrow>
          if opts = [] then None
          else Some \<lparr>question =
                       (case first_option_idx of
                          None \<Rightarrow> None
                        | Some k \<Rightarrow> find_question lib (rev (take k lines))),
                     options = opts\<rparr>)"

definition parse_prompt :: "library \<Rightarrow> ustring \<Rightarrow> ustring option" where
  "parse_prompt lib screen =
     (case parse_prompt_parts lib screen of
        None \<Rightarrow> None
      | Some parsed \<Rightarrow>
          Some (join [10, 10]
                  ((case question parsed of
                      None \<Rightarrow> []
                    | Some q \<Rightarrow> if q = [] then [] else [q])
                   @ [join [10] (options parsed)])))"

subsection \<open>\<^verbatim>\<open>RESET_TIME_RE\<close>\<close>

text \<open>
  \<^verbatim>\<open>.{lo,hi}?\)\<close> after \<open>n\<close> characters of the lazy repetition: the number of characters up to
  and with the closing parenthesis, the shortest repetition first.
\<close>

fun lazy_dots :: "nat \<Rightarrow> nat \<Rightarrow> nat \<Rightarrow> ustring \<Rightarrow> nat option" where
  "lazy_dots lo hi n [] = None"
| "lazy_dots lo hi n (c # cs) =
     (if lo \<le> n \<and> c = 41 then Some (Suc n)
      else if n < hi \<and> c \<noteq> 10 then lazy_dots lo hi (Suc n) cs
      else None)"

text \<open>\<^verbatim>\<open>\s+\<close> before a continuation: the longest run of white space first, then shorter ones.\<close>

fun backtrack :: "(ustring \<Rightarrow> nat option) \<Rightarrow> nat \<Rightarrow> ustring \<Rightarrow> nat option" where
  "backtrack f 0 t = None"
| "backtrack f (Suc k) t =
     (case f (drop (Suc k) t) of
        Some n \<Rightarrow> Some (Suc k + n)
      | None \<Rightarrow> backtrack f k t)"

definition spaces_then :: "(ustring \<Rightarrow> nat option) \<Rightarrow> ustring \<Rightarrow> nat option" where
  "spaces_then f t = backtrack f (length (takeWhile isspace t)) t"

text \<open>
  The two alternatives \<^verbatim>\<open>resets?\s+.{5,50}?\)\<close> and \<^verbatim>\<open>reset at\s+.{3,30}?\)\<close> at the start of
  the text, as the length of the match; the optional \<^verbatim>\<open>s\<close> is tried first.
\<close>

definition resets_alternative :: "ustring \<Rightarrow> nat option" where
  "resets_alternative t =
     (case ci_prefix (cp ''reset'') t of
        None \<Rightarrow> None
      | Some r \<Rightarrow>
          (case (case r of
                   [] \<Rightarrow> None
                 | c # cs \<Rightarrow> if ci_eq 115 c then spaces_then (lazy_dots 5 50 0) cs else None) of
             Some n \<Rightarrow> Some (6 + n)
           | None \<Rightarrow> map_option (\<lambda>n. 5 + n) (spaces_then (lazy_dots 5 50 0) r)))"

definition reset_at_alternative :: "ustring \<Rightarrow> nat option" where
  "reset_at_alternative t =
     (case ci_prefix (cp ''reset at'') t of
        None \<Rightarrow> None
      | Some r \<Rightarrow> map_option (\<lambda>n. 8 + n) (spaces_then (lazy_dots 3 30 0) r))"

text \<open>\<^verbatim>\<open>RESET_TIME_RE.search(text)\<close>: the text of the leftmost match.\<close>

fun RESET_TIME_RE_search :: "ustring \<Rightarrow> ustring option" where
  "RESET_TIME_RE_search [] = None"
| "RESET_TIME_RE_search (c # cs) =
     (case resets_alternative (c # cs) of
        Some n \<Rightarrow> Some (take n (c # cs))
      | None \<Rightarrow>
          (case reset_at_alternative (c # cs) of
             Some n \<Rightarrow> Some (take n (c # cs))
           | None \<Rightarrow> RESET_TIME_RE_search cs))"

section \<open>The outside world: the terminal session and the chat transport\<close>

text \<open>
  Every call that leaves the process (a tmux subprocess, a Telegram request, the clock, a
  sleep) and every assignment to the update cursor is recorded, in order, in a trace.  What a
  call returns is decided by the world, a record of functions of the trace up to and with
  the call: a call can succeed at one moment and fail at the next.  An exception is
  represented by its message text.  Logging is not modelled.
\<close>

record button =
  button_text :: ustring
  callback_data :: ustring

datatype action =
    CapturePane ustring nat
  | SendKeys ustring ustring
  | SendEscape ustring
  | Sleep nat
  | SaveSnapshot ustring
  | InputDeadline ustring nat
  | GetSessionInfo ustring
  | Clock
  | SendMessage int ustring "ustring option"
  | SendMessageWithButtons int ustring "button list" "ustring option"
  | AnswerCallbackQuery ustring ustring
  | GetFile ustring
  | DownloadFile ustring ustring
  | GetUpdates "int option" nat
  | CursorAdvanced int

text \<open>
  An update of the chat transport, with the fields the program reads.  A missing text,
  caption or callback payload is the empty string, as \<^verbatim>\<open>.get(key, "")\<close> makes it; the chat
  identifier is what \<^verbatim>\<open>.get("chat", {}).get("id")\<close> finds, if anything.
\<close>

record photo_size =
  photo_file_id :: ustring

record document =
  doc_file_id :: ustring
  doc_file_name :: "ustring option"

record message =
  msg_chat_id :: "int option"
  msg_photo :: "photo_size list"
  msg_document :: "document option"
  msg_text :: ustring
  msg_caption :: ustring

record callback_query =
  cb_id :: ustring
  cb_data :: ustring
  cb_chat_id :: "int option"

record update =
  update_id :: int
  upd_callback_query :: "callback_query option"
  upd_message :: "message option"

datatype poll_result = Interrupted | Failed ustring | Updates "update list"

record world =
  tmux_capture :: "action list \<Rightarrow> ustring + ustring"
  tmux_send_keys :: "action list \<Rightarrow> ustring option"
  tmux_escape :: "action list \<Rightarrow> ustring option"
  tmux_info :: "action list \<Rightarrow> (ustring \<times> ustring \<times> ustring) option"
  polls_before_deadline :: "action list \<Rightarrow> nat"
  clock_ms :: "action list \<Rightarrow> nat"
  telegram_send :: "action list \<Rightarrow> ustring option"
  telegram_answer :: "action list \<Rightarrow> ustring option"
  telegram_get_file :: "action list \<Rightarrow> ustring + ustring"
  telegram_download :: "action list \<Rightarrow> ustring option"
  telegram_updates :: "action list \<Rightarrow> poll_result"

text \<open>
  The module-level variables of poll.py (\<open>last_prompt_hash\<close>, \<open>last_ratelimit_hash\<close>,
  \<open>ratelimit_waiting\<close>), the local variables of \<open>main\<close> that live across the update loop
  (\<open>offset\<close>, \<open>last_screen_check\<close>, \<open>pending_files\<close>), and the trace.
\<close>

record state =
  last_prompt_hash :: "ustring option"
  last_ratelimit_hash :: "ustring option"
  ratelimit_waiting :: bool
  offset :: "int option"
  last_screen_check :: nat
  pending_files :: "(ustring \<times> ustring) list"
  trace :: "action list"

definition initial_state :: state where
  "initial_state =
     \<lparr>last_prompt_hash = None, last_ratelimit_hash = None, ratelimit_waiting = False,
      offset = None, last_screen_check = 0, pending_files = [], trace = []\<rparr>"

record config =
  telegram_chat_id :: int
  tmux_session :: ustring
  poll_interval :: nat
  download_dir :: ustring
  start_time_ms :: nat

definition emit :: "action \<Rightarrow> state \<Rightarrow> state" where
  "emit a s = s\<lparr>trace := trace s @ [a]\<rparr>"

subsection \<open>tmux\_utils.py\<close>

text \<open>\<open>capture_pane\<close> returns the pane text or raises (\<open>Inl\<close>).\<close>

definition capture_pane :: "world \<Rightarrow> ustring \<Rightarrow> nat \<Rightarrow> state \<Rightarrow> (ustring + ustring) \<times> state" where
  "capture_pane w session_name lines s =
     (let s' = emit (CapturePane session_name lines) s in (tmux_capture w (trace s'), s'))"

text \<open>\<open>send_keys\<close> (literal text, then Enter) returns or raises (\<open>Some\<close>).\<close>

definition send_keys :: "world \<Rightarrow> ustring \<Rightarrow> ustring \<Rightarrow> state \<Rightarrow> ustring option \<times> state" where
  "send_keys w session_name text s =
     (let s' = emit (SendKeys session_name text) s in (tmux_send_keys w (trace s'), s'))"

definition sleep :: "nat \<Rightarrow> state \<Rightarrow> state" where
  "sleep ms s = emit (Sleep ms) s"

text \<open>\<open>save_snapshot\<close> catches every exception.\<close>

definition save_snapshot :: "ustring \<Rightarrow> state \<Rightarrow> state" where
  "save_snapshot session_name s = emit (SaveSnapshot session_name) s"

definition get_session_info ::
  "world \<Rightarrow> ustring \<Rightarrow> state \<Rightarrow> (ustring \<times> ustring \<times> ustring) option \<times> state" where
  "get_session_info w session_name s =
     (let s' = emit (GetSessionInfo session_name) s in (tmux_info w (trace s'), s'))"

text \<open>
  The loop of \<open>wait_for_input\<close>, for the \<open>n\<close> iterations that start before the deadline: it
  captures five lines, returns \<open>True\<close> on the first capture that shows the bare input prompt,
  and sleeps one second after every other capture, failed ones included.
\<close>

fun wait_loop :: "world \<Rightarrow> ustring \<Rightarrow> nat \<Rightarrow> state \<Rightarrow> bool \<times> state" where
  "wait_loop w session_name 0 s = (False, s)"
| "wait_loop w session_name (Suc n) s =
     (case capture_pane w session_name 5 s of
        (Inr screen, s') \<Rightarrow>
          if INPUT_PROMPT_RE screen then (True, s')
          else wait_loop w session_name n (sleep 1000 s')
      | (Inl e, s') \<Rightarrow> wait_loop w session_name n (sleep 1000 s'))"

text \<open>
  \<open>wait_for_input\<close>: the deadline is \<open>timeout\<close> seconds after the call; how many iterations
  start before it is read off the world's clock.
\<close>

definition wait_for_input :: "world \<Rightarrow> ustring \<Rightarrow> nat \<Rightarrow> state \<Rightarrow> bool \<times> state" where
  "wait_for_input w session_name timeout s =
     (let s' = emit (InputDeadline session_name timeout) s
      in wait_loop w session_name (polls_before_deadline w (trace s')) s')"

subsection \<open>telegram\_api.py\<close>

definition send_message ::
  "world \<Rightarrow> int \<Rightarrow> ustring \<Rightarrow> ustring option \<Rightarrow> state \<Rightarrow> ustring option \<times> state" where
  "send_message w chat_id text parse_mode s =
     (let s' = emit (SendMessage chat_id text parse_mode) s in (telegram_send w (trace s'), s'))"

definition send_message_with_buttons ::
  "world \<Rightarrow> int \<Rightarrow> ustring \<Rightarrow> button list \<Rightarrow> ustring option \<Rightarrow> state \<Rightarrow> ustring option \<times> state" where
  "send_message_with_buttons w chat_id text buttons parse_mode s =
     (let s' = emit (SendMessageWithButtons chat_id text buttons parse_mode) s
      in (telegram_send w (trace s'), s'))"

definition answer_callback_query ::
  "world \<Rightarrow> ustring \<Rightarrow> ustring \<Rightarrow> state \<Rightarrow> ustring option \<times> state" where
  "answer_callback_query w query_id text s =
     (let s' = emit (AnswerCallbackQuery query_id text) s in (telegram_answer w (trace s'), s'))"

definition get_file :: "world \<Rightarrow> ustring \<Rightarrow> state \<Rightarrow> (ustring + ustring) \<times> state" where
  "get_file w file_id s =
     (let s' = emit (GetFile file_id) s in (telegram_get_file w (trace s'), s'))"

definition download_file :: "world \<Rightarrow> ustring \<Rightarrow> ustring \<Rightarrow> state \<Rightarrow> ustring option \<times> state" where
  "download_file w file_path dest_path s =
     (let s' = emit (DownloadFile file_path dest_path) s in (telegram_download w (trace s'), s'))"

definition HTML :: "ustring option" where
  "HTML = Some (cp ''HTML'')"

definition Markdown :: "ustring option" where
  "Markdown = Some (cp ''Markdown'')"

text \<open>\<^verbatim>\<open>time.time()\<close>, in milliseconds.\<close>

definition time_ms :: "world \<Rightarrow> state \<Rightarrow> nat \<times> state" where
  "time_ms w s = (let s' = emit Clock s in (clock_ms w (trace s'), s'))"

section \<open>poll.py: the two screen classifiers\<close>

subsection \<open>\<open>check_for_ratelimit\<close>\<close>

text \<open>
  \<^verbatim>\<open>re.sub(r'^[\s]+', '', stripped)\<close>, whose class also holds the box-drawing characters
  U+2514, U+2502, U+251C and U+2500.
\<close>

definition chrome_lead :: "nat \<Rightarrow> bool" where
  "chrome_lead c \<longleftrightarrow> c = 9492 \<or> c = 9474 \<or> c = 9500 \<or> c = 9472 \<or> isspace c"

fun relevant_lines :: "ustring list \<Rightarrow> ustring list" where
  "relevant_lines [] = []"
| "relevant_lines (line # rest) =
     (let stripped = strip line in
      if stripped \<noteq> [] \<and> re_search RATELIMIT_RE stripped
      then (let cleaned = strip (dropWhile chrome_lead stripped)
            in if cleaned \<noteq> [] then cleaned # relevant_lines rest else relevant_lines rest)
      else relevant_lines rest)"

definition recovery_text :: ustring where
  "recovery_text = [9989] @ cp '' Rate limit reset '' @ [8212] @ cp '' Claude is ready again!''"

text \<open>
  The message of a rate-limit notification: \<open>reset_info\<close> is the line that gives the reset
  time when \<^verbatim>\<open>RESET_TIME_RE\<close> finds one on the screen, and the composed message is cut by
  \<^verbatim>\<open>msg[:4000]\<close>.
\<close>

definition reset_info :: "ustring \<Rightarrow> ustring" where
  "reset_info clean =
     (case RESET_TIME_RE_search clean of
        None \<Rightarrow> []
      | Some g \<Rightarrow> [10, 9200, 32] @ rstrip_dot (strip g))"

definition ratelimit_message :: "ustring \<Rightarrow> ustring \<Rightarrow> ustring" where
  "ratelimit_message clean content =
     (let msg = [128721] @ cp '' *Rate limit reached*'' @ [10, 10] @ content @ reset_info clean
      in if 4000 < length msg then slice_to msg 4000 else msg)"

definition check_for_ratelimit :: "world \<Rightarrow> library \<Rightarrow> int \<Rightarrow> ustring \<Rightarrow> state \<Rightarrow> state" where
  "check_for_ratelimit w lib chat_id session s =
     (case capture_pane w session 20 s of
        (Inl e, s1) \<Rightarrow> s1
      | (Inr screen, s1) \<Rightarrow>
          let clean = strip (sanitize_text lib screen) in
          if clean = [] then s1
          else if \<not> re_search RATELIMIT_RE clean
          then (if ratelimit_waiting s1
                then snd (send_message w chat_id recovery_text HTML (s1\<lparr>ratelimit_waiting := False\<rparr>))
                else s1)\<lparr>last_ratelimit_hash := None\<rparr>
          else let relevant = relevant_lines (splitlines clean) in
               if relevant = [] then s1
               else let content = join [10] relevant;
                        h = md5_hexdigest lib content
                    in if Some h = last_ratelimit_hash s1 then s1
                       else let msg = ratelimit_message clean content;
                                s2 = s1\<lparr>last_ratelimit_hash := Some h, ratelimit_waiting := True\<rparr>
                            in (case send_message w chat_id msg Markdown s2 of
                                  (None, s3) \<Rightarrow> s3
                                | (Some e, s3) \<Rightarrow> snd (send_message w chat_id msg None s3)))"

subsection \<open>\<open>check_for_prompts\<close>\<close>

definition btn_emojis :: "ustring list" where
  "btn_emojis =
     [[9989], [128260], [9997, 65039], [128172], [11088], [128279], [128295], [9881, 65039]]"

text \<open>
  The loop that builds the inline keyboard: \<^verbatim>\<open>opt.split(".")[0]\<close> is the text before the first
  dot and \<^verbatim>\<open>opt.split(".", 1)[1]\<close> the text after it.
\<close>

fun make_buttons :: "nat \<Rightarrow> ustring list \<Rightarrow> button list" where
  "make_buttons i [] = []"
| "make_buttons i (opt # rest) =
     (let num = strip (takeWhile (\<lambda>c. c \<noteq> 46) opt);
          label = (if 46 \<in> set opt then strip (tl (dropWhile (\<lambda>c. c \<noteq> 46) opt)) else opt);
          emoji = (if i < length btn_emojis then btn_emojis ! i else [9654, 65039])
      in \<lparr>button_text = emoji @ [32] @ label, callback_data = num\<rparr> # make_buttons (Suc i) rest)"

definition prompt_buttons :: "library \<Rightarrow> ustring \<Rightarrow> button list" where
  "prompt_buttons lib screen =
     (case parse_prompt_parts lib screen of
        None \<Rightarrow> []
      | Some parsed \<Rightarrow> make_buttons 0 (options parsed))"

definition check_for_prompts :: "world \<Rightarrow> library \<Rightarrow> int \<Rightarrow> ustring \<Rightarrow> state \<Rightarrow> state" where
  "check_for_prompts w lib chat_id session s =
     (case capture_pane w session 20 s of
        (Inl e, s1) \<Rightarrow> s1
      | (Inr raw, s1) \<Rightarrow>
          let screen = strip raw in
          if screen = [] then s1
          else if \<not> re_search PROMPT_DETECT_RE screen then s1\<lparr>last_prompt_hash := None\<rparr>
          else (case parse_prompt lib screen of
                  None \<Rightarrow> s1
                | Some prompt_text \<Rightarrow>
                    if prompt_text = [] then s1
                    else let h = md5_hexdigest lib prompt_text in
                      if Some h = last_prompt_hash s1 then s1
                      else let s2 = s1\<lparr>last_prompt_hash := Some h\<rparr>;
                               buttons = prompt_buttons lib screen;
                               msg0 = [10067] @ cp '' *Prompt*'' @ [10, 10] @ prompt_text;
                               msg = (if 4000 < length msg0 then slice_to msg0 4000 else msg0)
                           in (case (if buttons \<noteq> []
                                     then send_message_with_buttons w chat_id msg buttons Markdown s2
                                     else send_message w chat_id msg Markdown s2) of
                                 (None, s3) \<Rightarrow> s3
                               | (Some e, s3) \<Rightarrow>
                                   snd (send_message w chat_id
                                          ([10067] @ cp '' Prompt'' @ [10, 10] @ prompt_text) None s3))))"

section \<open>poll.py: commands, callbacks and attachments\<close>

text \<open>
  \<open>format_uptime\<close>, from the whole seconds elapsed since \<open>start_time\<close>.
\<close>

definition format_uptime :: "world \<Rightarrow> config \<Rightarrow> state \<Rightarrow> ustring \<times> state" where
  "format_uptime w cfg s =
     (case time_ms w s of
        (now, s1) \<Rightarrow>
          let elapsed = (now - start_time_ms cfg) div 1000;
              hours = elapsed div 3600; remainder = elapsed mod 3600;
              minutes = remainder div 60; seconds = remainder mod 60
          in (if hours \<noteq> 0
              then str_nat hours @ cp ''h '' @ str_nat minutes @ cp ''m '' @ str_nat seconds @ cp ''s''
              else if minutes \<noteq> 0
              then str_nat minutes @ cp ''m '' @ str_nat seconds @ cp ''s''
              else str_nat seconds @ cp ''s'', s1))"

text \<open>
  \<^verbatim>\<open>str.lower\<close>, exact on every character whose lower-case form holds an ASCII character
  (A-Z, U+0130 and U+212A); the other characters are left as they are, which keeps them
  outside ASCII, and the program only compares the result with ASCII command names.
\<close>

definition str_lower :: "ustring \<Rightarrow> ustring" where
  "str_lower t =
     concat (map (\<lambda>c. if 65 \<le> c \<and> c \<le> 90 then [c + 32]
                       else if c = 304 then [105, 775]
                       else if c = 8490 then [107]
                       else [c]) t)"

definition help_text :: ustring where
  "help_text =
     cp ''<b>couchclaude commands</b>'' @ [10, 10] @
     cp ''/ping '' @ [8212] @ cp '' Check if online'' @ [10] @
     cp ''/status '' @ [8212] @ cp '' Session status'' @ [10] @
     cp ''/view or /screen '' @ [8212] @ cp '' Current terminal (last 50 lines)'' @ [10] @
     cp ''/esc '' @ [8212] @ cp '' Send Escape key (exit menus, cancel prompts)'' @ [10] @
     cp ''/cd &lt;path&gt; '' @ [8212] @ cp '' Change directory'' @ [10] @
     cp ''/cmd &lt;command&gt; '' @ [8212] @ cp '' Run shell command'' @ [10] @
     cp ''/help '' @ [8212] @ cp '' This message'' @ [10, 10] @
     [128247] @ cp '' Send a photo or file to forward it to Claude''"

definition error_text :: "ustring \<Rightarrow> ustring" where
  "error_text e = [10060] @ cp '' Error: '' @ e"

text \<open>The tmux subprocess of the \<^verbatim>\<open>/esc\<close> command, which raises on a non-zero exit status.\<close>

definition send_escape :: "world \<Rightarrow> ustring \<Rightarrow> state \<Rightarrow> ustring option \<times> state" where
  "send_escape w session s =
     (let s' = emit (SendEscape session) s in (tmux_escape w (trace s'), s'))"

text \<open>
  The body shared by \<^verbatim>\<open>/cd\<close>, \<^verbatim>\<open>/cmd\<close> and a plain chat message: inject, pause, snapshot,
  acknowledge; any exception of these steps is reported to the chat instead.  An exception of
  that report leaves the function.
\<close>

definition inject_and_report ::
  "world \<Rightarrow> int \<Rightarrow> ustring \<Rightarrow> ustring \<Rightarrow> ustring \<Rightarrow> (ustring \<Rightarrow> ustring) \<Rightarrow> state \<Rightarrow> ustring option \<times> state" where
  "inject_and_report w chat_id session keys done failed s =
     (case send_keys w session keys s of
        (Some e, s1) \<Rightarrow> send_message w chat_id (failed e) HTML s1
      | (None, s1) \<Rightarrow>
          (case send_message w chat_id done HTML (save_snapshot session (sleep 500 s1)) of
             (Some e, s2) \<Rightarrow> send_message w chat_id (failed e) HTML s2
           | (None, s2) \<Rightarrow> (None, s2)))"

text \<open>
  The blocks of \<open>handle_command\<close>, one for each command; \<open>Some e\<close> is an exception that
  leaves the block.
\<close>

definition ping_command :: "world \<Rightarrow> int \<Rightarrow> config \<Rightarrow> state \<Rightarrow> ustring option \<times> state" where
  "ping_command w chat_id cfg s =
     (case format_uptime w cfg s of
        (up, s1) \<Rightarrow> send_message w chat_id (cp ''pong '' @ [8212] @ cp '' uptime: '' @ up) HTML s1)"

definition esc_command :: "world \<Rightarrow> int \<Rightarrow> ustring \<Rightarrow> state \<Rightarrow> ustring option \<times> state" where
  "esc_command w chat_id session s =
     (case send_escape w session s of
        (Some e, s1) \<Rightarrow> send_message w chat_id (error_text e) HTML s1
      | (None, s1) \<Rightarrow>
          (case send_message w chat_id ([9167, 65039] @ cp '' Escape sent'') HTML s1 of
             (Some e, s2) \<Rightarrow> send_message w chat_id (error_text e) HTML s2
           | (None, s2) \<Rightarrow> (None, s2)))"

definition status_command :: "world \<Rightarrow> int \<Rightarrow> config \<Rightarrow> state \<Rightarrow> ustring option \<times> state" where
  "status_command w chat_id cfg s =
     (case get_session_info w (tmux_session cfg) s of
        (Some (name, cwd, command), s1) \<Rightarrow>
          (case format_uptime w cfg s1 of
             (up, s2) \<Rightarrow>
               send_message w chat_id
                 ([128994] @ cp '' Session: <code>'' @ name @ cp ''</code>'' @ [10] @
                  [128194] @ cp '' CWD: <code>'' @ cwd @ cp ''</code>'' @ [10] @
                  [9881, 65039] @ cp '' Command: <code>'' @ command @ cp ''</code>'' @ [10] @
                  [9201] @ cp '' Uptime: '' @ up) HTML s2)
      | (None, s1) \<Rightarrow>
          send_message w chat_id
            ([128308] @ cp '' tmux session <code>'' @ tmux_session cfg @ cp ''</code> not found'')
            HTML s1)"

definition view_command :: "world \<Rightarrow> library \<Rightarrow> int \<Rightarrow> ustring \<Rightarrow> state \<Rightarrow> ustring option \<times> state" where
  "view_command w lib chat_id session s =
     (case capture_pane w session 50 s of
        (Inl e, s1) \<Rightarrow> send_message w chat_id (error_text e) HTML s1
      | (Inr raw, s1) \<Rightarrow>
          let content0 = strip (sanitize_text lib raw);
              content1 = (if content0 = [] then cp ''(empty screen)'' else content0);
              content = (if 3900 < length content1 then slice_from content1 (- 3900) else content1)
          in (case send_message w chat_id content None s1 of
                (Some e, s2) \<Rightarrow> send_message w chat_id (error_text e) HTML s2
              | (None, s2) \<Rightarrow> (None, s2)))"

text \<open>A block that ends in \<^verbatim>\<open>return True\<close>, unless an exception leaves it.\<close>

definition handled :: "ustring option \<times> state \<Rightarrow> (ustring + bool) \<times> state" where
  "handled r = (case r of (Some e, s) \<Rightarrow> (Inl e, s) | (None, s) \<Rightarrow> (Inr True, s))"

text \<open>
  \<open>handle_command\<close>: \<open>Inl\<close> is an exception that leaves it, \<open>Inr\<close> its return value.
  \<^verbatim>\<open>text.strip().split(None, 1)\<close> gives the first run of non-space characters and the rest
  without the white space between them; the caller passes a text that starts with a slash.
\<close>

definition handle_command ::
  "world \<Rightarrow> library \<Rightarrow> int \<Rightarrow> config \<Rightarrow> ustring \<Rightarrow> state \<Rightarrow> (ustring + bool) \<times> state" where
  "handle_command w lib chat_id cfg text s =
     (let stripped = strip text;
          cmd = str_lower (takeWhile (\<lambda>c. \<not> isspace c) stripped);
          arg = dropWhile isspace (dropWhile (\<lambda>c. \<not> isspace c) stripped);
          session = tmux_session cfg
      in if cmd = cp ''/ping'' then handled (ping_command w chat_id cfg s)
         else if cmd = cp ''/esc'' then handled (esc_command w chat_id session s)
         else if cmd = cp ''/help'' then handled (send_message w chat_id help_text HTML s)
         else if cmd = cp ''/status'' then handled (status_command w chat_id cfg s)
         else if cmd = cp ''/view'' \<or> cmd = cp ''/screen''
         then handled (view_command w lib chat_id session s)
         else if cmd = cp ''/cd'' \<and> arg \<noteq> []
         then handled
                (inject_and_report w chat_id session (cp ''cd '' @ arg)
                   ([128232] @ cp '' Sent: cd '' @ arg) error_text s)
         else if cmd = cp ''/cmd'' \<and> arg \<noteq> []
         then handled
                (inject_and_report w chat_id session arg ([128232] @ cp '' Sent: '' @ arg) error_text s)
         else (Inr False, s))"

text \<open>\<open>handle_callback\<close>: the payload of the pressed button is injected as typed text.\<close>

definition handle_callback ::
  "world \<Rightarrow> int \<Rightarrow> config \<Rightarrow> callback_query \<Rightarrow> state \<Rightarrow> ustring option \<times> state" where
  "handle_callback w chat_id cfg cb s =
     (let session = tmux_session cfg; data = cb_data cb; query_id = cb_id cb in
      case send_keys w session data s of
        (Some e, s1) \<Rightarrow> answer_callback_query w query_id (cp ''Error: '' @ e) s1
      | (None, s1) \<Rightarrow>
          (case answer_callback_query w query_id (cp ''Sent: '' @ data)
                  (save_snapshot session (sleep 500 s1)) of
             (Some e, s2) \<Rightarrow> answer_callback_query w query_id (cp ''Error: '' @ e) s2
           | (None, s2) \<Rightarrow> (None, s2)))"

text \<open>
  \<^verbatim>\<open>os.path.splitext(p)[1]\<close> and \<^verbatim>\<open>os.path.join(a, b)\<close> on POSIX paths: the extension starts
  at the last dot of the last path component unless only dots precede it there; an absolute
  second path replaces the first.
\<close>

definition splitext_ext :: "ustring \<Rightarrow> ustring" where
  "splitext_ext p =
     (let name = rev (takeWhile (\<lambda>c. c \<noteq> 47) (rev p)) in
      if 46 \<notin> set name then []
      else let ext = rev (takeWhile (\<lambda>c. c \<noteq> 46) (rev name));
               stem = take (length name - length ext - 1) name
           in if list_all (\<lambda>c. c = 46) stem then [] else 46 # ext)"

definition path_join :: "ustring \<Rightarrow> ustring \<Rightarrow> ustring" where
  "path_join a b =
     (if b \<noteq> [] \<and> hd b = 47 then b
      else if a = [] \<or> last a = 47 then a @ b
      else a @ [47] @ b)"

text \<open>
  \<open>download_photo\<close> and \<open>download_document\<close>: \<open>Inl\<close> is an exception, \<open>Inr\<close> the returned pair
  of an optional local path and a caption.
\<close>

definition download_photo ::
  "world \<Rightarrow> config \<Rightarrow> message \<Rightarrow> state \<Rightarrow> (ustring + ustring option \<times> ustring) \<times> state" where
  "download_photo w cfg msg s =
     (if msg_photo msg = [] then (Inr (None, []), s)
      else let photo = last (msg_photo msg) in
        case get_file w (photo_file_id photo) s of
          (Inl e, s1) \<Rightarrow> (Inl e, s1)
        | (Inr file_path, s1) \<Rightarrow>
            (case time_ms w s1 of
               (now, s2) \<Rightarrow>
                 let ext = (if splitext_ext file_path = [] then cp ''.jpg'' else splitext_ext file_path);
                     local_name = cp ''photo_'' @ str_nat (now div 1000) @ cp ''_'' @
                                  slice_from (photo_file_id photo) (- 6) @ ext;
                     local_path = path_join (download_dir cfg) local_name
                 in (case download_file w file_path local_path s2 of
                       (Some e, s3) \<Rightarrow> (Inl e, s3)
                     | (None, s3) \<Rightarrow> (Inr (Some local_path, msg_caption msg), s3))))"

definition download_document ::
  "world \<Rightarrow> config \<Rightarrow> document \<Rightarrow> message \<Rightarrow> state \<Rightarrow> (ustring + ustring option \<times> ustring) \<times> state" where
  "download_document w cfg doc msg s =
     (case get_file w (doc_file_id doc) s of
        (Inl e, s1) \<Rightarrow> (Inl e, s1)
      | (Inr file_path, s1) \<Rightarrow>
          let file_name = (case doc_file_name doc of None \<Rightarrow> cp ''file'' | Some n \<Rightarrow> n);
              local_path = path_join (download_dir cfg) file_name
          in (case download_file w file_path local_path s1 of
                (Some e, s2) \<Rightarrow> (Inl e, s2)
              | (None, s2) \<Rightarrow> (Inr (Some local_path, msg_caption msg), s2)))"

text \<open>The text that \<open>send_files_to_claude\<close> injects for a batch of downloaded files.\<close>

definition files_prompt :: "(ustring \<times> ustring) list \<Rightarrow> ustring" where
  "files_prompt files =
     (let paths = map fst files;
          captions = filter (\<lambda>c. c \<noteq> []) (map snd files)
      in if captions \<noteq> []
         then (if length paths = 1
               then join (cp '' | '') captions @ [10, 10] @
                    cp ''(Image attached from Telegram, saved at: '' @ hd paths @ cp '')''
               else join (cp '' | '') captions @ [10, 10] @ cp ''('' @ str_nat (length paths) @
                    cp '' files attached from Telegram, saved at: '' @ join (cp '' and '') paths @ cp '')'')
         else (if length paths = 1
               then cp ''The user sent a file from Telegram. View it at: '' @ hd paths
               else cp ''The user sent '' @ str_nat (length paths) @
                    cp '' files from Telegram. View them at: '' @ join (cp '' and '') paths))"

definition input_warning :: ustring where
  "input_warning = [9888, 65039] @ cp '' Claude not at input prompt, file may need manual Enter''"

text \<open>
  The end of \<open>send_files_to_claude\<close>: inject the text, pause, snapshot, acknowledge.
\<close>

definition inject_files ::
  "world \<Rightarrow> int \<Rightarrow> ustring \<Rightarrow> ustring \<Rightarrow> nat \<Rightarrow> state \<Rightarrow> ustring option \<times> state" where
  "inject_files w chat_id session prompt count s =
     (let label = (if count = 1 then cp ''Photo'' else str_nat count @ cp '' files'') in
      case send_keys w session prompt s of
        (Some e, s1) \<Rightarrow> (Some e, s1)
      | (None, s1) \<Rightarrow>
          send_message w chat_id ([128247, 32] @ label @ cp '' sent to Claude'') None
            (save_snapshot session (sleep 500 s1)))"

text \<open>
  \<open>send_files_to_claude\<close>: waits up to 30 seconds for the input prompt, warns the chat when
  the wait times out, and injects the text in either case.  Nothing is caught here.
\<close>

definition send_files_to_claude ::
  "world \<Rightarrow> int \<Rightarrow> ustring \<Rightarrow> (ustring \<times> ustring) list \<Rightarrow> state \<Rightarrow> ustring option \<times> state" where
  "send_files_to_claude w chat_id session files s =
     (let prompt = files_prompt files in
      case wait_for_input w session 30 s of
        (True, s1) \<Rightarrow> inject_files w chat_id session prompt (length files) s1
      | (False, s1) \<Rightarrow>
          (case send_message w chat_id input_warning None s1 of
             (Some e, s2) \<Rightarrow> (Some e, s2)
           | (None, s2) \<Rightarrow> inject_files w chat_id session prompt (length files) s2))"

section \<open>poll.py: the poll loop\<close>

text \<open>
  The body of \<^verbatim>\<open>for update in updates\<close>.  Its first statement moves the cursor past the
  update; the handling follows.  The result \<open>Some e\<close> is an exception that no handler
  catches, which ends \<open>main\<close>.
\<close>

definition handle_update ::
  "world \<Rightarrow> library \<Rightarrow> config \<Rightarrow> update \<Rightarrow> state \<Rightarrow> ustring option \<times> state" where
  "handle_update w lib cfg u s =
     (let chat_id = telegram_chat_id cfg; session = tmux_session cfg in
      case upd_callback_query u of
        Some cb \<Rightarrow>
          if cb_chat_id cb = Some chat_id
          then (None, snd (handle_callback w chat_id cfg cb s))
          else (None, s)
      | None \<Rightarrow>
          (case upd_message u of
             None \<Rightarrow> (None, s)
           | Some msg \<Rightarrow>
               if msg_chat_id msg \<noteq> Some chat_id then (None, s)
               else if msg_photo msg \<noteq> []
               then (case download_photo w cfg msg s of
                       (Inr (path, caption), s1) \<Rightarrow>
                         (case path of
                            None \<Rightarrow> (None, s1)
                          | Some p \<Rightarrow>
                              if p \<noteq> [] then (None, s1\<lparr>pending_files := pending_files s1 @ [(p, caption)]\<rparr>)
                              else (None, s1))
                     | (Inl e, s1) \<Rightarrow>
                         send_message w chat_id ([10060] @ cp '' Photo error: '' @ e) None s1)
               else (case msg_document msg of
                       Some doc \<Rightarrow>
                         (case download_document w cfg doc msg s of
                            (Inr (path, caption), s1) \<Rightarrow>
                              (case path of
                                 None \<Rightarrow> (None, s1)
                               | Some p \<Rightarrow>
                                   if p \<noteq> [] then (None, s1\<lparr>pending_files := pending_files s1 @ [(p, caption)]\<rparr>)
                                   else (None, s1))
                          | (Inl e, s1) \<Rightarrow>
                              send_message w chat_id ([10060] @ cp '' File error: '' @ e) None s1)
                     | None \<Rightarrow>
                         let text = (if msg_text msg \<noteq> [] then msg_text msg else msg_caption msg) in
                         if text = [] then (None, s)
                         else if hd text = 47
                         then (None, snd (handle_command w lib chat_id cfg text s))
                         else inject_and_report w chat_id session text
                                ([128232] @ cp '' Sent to Claude'')
                                (\<lambda>e. [10060] @ cp '' Could not send: '' @ e) s)))"

definition process_update ::
  "world \<Rightarrow> library \<Rightarrow> config \<Rightarrow> update \<Rightarrow> state \<Rightarrow> ustring option \<times> state" where
  "process_update w lib cfg u s =
     handle_update w lib cfg u (emit (CursorAdvanced (update_id u + 1)) (s\<lparr>offset := Some (update_id u + 1)\<rparr>))"

fun process_updates ::
  "world \<Rightarrow> library \<Rightarrow> config \<Rightarrow> update list \<Rightarrow> state \<Rightarrow> ustring option \<times> state" where
  "process_updates w lib cfg [] s = (None, s)"
| "process_updates w lib cfg (u # us) s =
     (case process_update w lib cfg u s of
        (Some e, s1) \<Rightarrow> (Some e, s1)
      | (None, s1) \<Rightarrow> process_updates w lib cfg us s1)"

text \<open>
  One iteration of \<^verbatim>\<open>while running\<close>: the long poll, the screen checks when five seconds
  have passed since the last ones, the updates in the order delivered, and the batch of
  files.  A failed poll sleeps and starts the next iteration with the cursor unchanged.
\<close>

datatype outcome = Continue | Break | Crash ustring

definition main_iteration :: "world \<Rightarrow> library \<Rightarrow> config \<Rightarrow> state \<Rightarrow> outcome \<times> state" where
  "main_iteration w lib cfg s =
     (let chat_id = telegram_chat_id cfg; session = tmux_session cfg;
          s0 = emit (GetUpdates (offset s) 5) s
      in case telegram_updates w (trace s0) of
           Interrupted \<Rightarrow> (Break, s0)
         | Failed e \<Rightarrow> (Continue, sleep (poll_interval cfg * 1000) s0)
         | Updates updates \<Rightarrow>
             (case time_ms w s0 of
                (now, s1) \<Rightarrow>
                  let s2 = (if 5000 \<le> now - last_screen_check s1
                            then check_for_ratelimit w lib chat_id session
                                   (check_for_prompts w lib chat_id session
                                      (s1\<lparr>last_screen_check := now\<rparr>))
                            else s1)
                  in (case process_updates w lib cfg updates (s2\<lparr>pending_files := []\<rparr>) of
                        (Some e, s3) \<Rightarrow> (Crash e, s3)
                      | (None, s3) \<Rightarrow>
                          if pending_files s3 = [] then (Continue, s3)
                          else (case send_files_to_claude w chat_id session (pending_files s3) s3 of
                                  (None, s4) \<Rightarrow> (Continue, s4)
                                | (Some e, s4) \<Rightarrow>
                                    (case send_message w chat_id
                                            ([10060] @ cp '' File send error: '' @ e) None s4 of
                                       (None, s5) \<Rightarrow> (Continue, s5)
                                     | (Some e', s5) \<Rightarrow> (Crash e', s5))))))"

text \<open>
  The loop runs for as many iterations as start before a termination signal clears
  \<open>running\<close>; that number is the argument \<open>n\<close>.
\<close>

fun main_loop :: "world \<Rightarrow> library \<Rightarrow> config \<Rightarrow> nat \<Rightarrow> state \<Rightarrow> ustring option \<times> state" where
  "main_loop w lib cfg 0 s = (None, s)"
| "main_loop w lib cfg (Suc n) s =
     (case main_iteration w lib cfg s of
        (Continue, s1) \<Rightarrow> main_loop w lib cfg n s1
      | (Break, s1) \<Rightarrow> (None, s1)
      | (Crash e, s1) \<Rightarrow> (Some e, s1))"

text \<open>\<open>main\<close> for a valid configuration: both announcements ignore a failed send.\<close>

definition main :: "world \<Rightarrow> library \<Rightarrow> config \<Rightarrow> nat \<Rightarrow> ustring option \<times> state" where
  "main w lib cfg n =
     (let chat_id = telegram_chat_id cfg;
          s0 = snd (send_message w chat_id ([128994] @ cp '' couchclaude online'') HTML initial_state)
      in case main_loop w lib cfg n s0 of
           (Some e, s1) \<Rightarrow> (Some e, s1)
         | (None, s1) \<Rightarrow>
             (None, snd (send_message w chat_id ([128308] @ cp '' couchclaude offline'') HTML s1)))"

section \<open>Notions used to state the properties\<close>

text \<open>
  What a screen check captures in state \<open>s\<close>, the actions a step adds to the trace, and the
  content each classifier extracts from a captured screen (\<open>None\<close> when it extracts nothing).
\<close>

definition captured :: "world \<Rightarrow> ustring \<Rightarrow> state \<Rightarrow> ustring + ustring" where
  "captured w session s = tmux_capture w (trace s @ [CapturePane session 20])"

definition new_actions :: "state \<Rightarrow> state \<Rightarrow> action list" where
  "new_actions s s' = drop (length (trace s)) (trace s')"

definition prompt_content :: "library \<Rightarrow> ustring \<Rightarrow> ustring option" where
  "prompt_content lib raw =
     (if strip raw = [] \<or> \<not> re_search PROMPT_DETECT_RE (strip raw) then None
      else (case parse_prompt lib (strip raw) of
              None \<Rightarrow> None
            | Some t \<Rightarrow> if t = [] then None else Some t))"

definition ratelimit_content :: "library \<Rightarrow> ustring \<Rightarrow> ustring option" where
  "ratelimit_content lib raw =
     (let clean = strip (sanitize_text lib raw) in
      if clean = [] \<or> \<not> re_search RATELIMIT_RE clean then None
      else if relevant_lines (splitlines clean) = [] then None
      else Some (join [10] (relevant_lines (splitlines clean))))"

text \<open>The formatted notification of each classifier, and the plain-text second attempt.\<close>

definition prompt_notice :: "library \<Rightarrow> int \<Rightarrow> ustring \<Rightarrow> ustring \<Rightarrow> action" where
  "prompt_notice lib chat_id raw t =
     (let msg0 = [10067] @ cp '' *Prompt*'' @ [10, 10] @ t;
          msg = (if 4000 < length msg0 then slice_to msg0 4000 else msg0)
      in if prompt_buttons lib (strip raw) \<noteq> []
         then SendMessageWithButtons chat_id msg (prompt_buttons lib (strip raw)) Markdown
         else SendMessage chat_id msg Markdown)"

definition prompt_fallback :: "int \<Rightarrow> ustring \<Rightarrow> action" where
  "prompt_fallback chat_id t = SendMessage chat_id ([10067] @ cp '' Prompt'' @ [10, 10] @ t) None"

definition ratelimit_notice :: "library \<Rightarrow> int \<Rightarrow> ustring \<Rightarrow> ustring \<Rightarrow> action" where
  "ratelimit_notice lib chat_id raw t =
     SendMessage chat_id (ratelimit_message (strip (sanitize_text lib raw)) t) Markdown"

definition ratelimit_fallback :: "library \<Rightarrow> int \<Rightarrow> ustring \<Rightarrow> ustring \<Rightarrow> action" where
  "ratelimit_fallback lib chat_id raw t =
     SendMessage chat_id (ratelimit_message (strip (sanitize_text lib raw)) t) None"

definition recovery_notice :: "int \<Rightarrow> action" where
  "recovery_notice chat_id = SendMessage chat_id recovery_text HTML"

text \<open>
  The lines of a sanitized screen that the parser takes for options, and the option text it
  makes of such a line.
\<close>

definition is_option_line :: "library \<Rightarrow> ustring \<Rightarrow> bool" where
  "is_option_line lib line \<longleftrightarrow>
     strip line \<noteq> [] \<and> \<not> list_all separator_char (strip line) \<and>
     \<not> re_search SELECTOR_RE (strip line) \<and> OPTION_RE_match lib line \<noteq> None"

definition option_text :: "library \<Rightarrow> ustring \<Rightarrow> ustring" where
  "option_text lib line =
     (case OPTION_RE_match lib line of
        None \<Rightarrow> []
      | Some (g1, g2) \<Rightarrow> g1 @ cp ''. '' @ strip g2)"

text \<open>The two lines of the example: U+276F, \<^verbatim>\<open> 1. Yes\<close>, and \<^verbatim>\<open>  2. No\<close>.\<close>

definition yes_no_screen :: ustring where
  "yes_no_screen = [10095] @ cp '' 1. Yes'' @ [10] @ cp ''  2. No''"

text \<open>
  The notifications in a trace: only the two classifiers send with the Markdown parse mode,
  once for each event they announce.
\<close>

fun formatted :: "action \<Rightarrow> bool" where
  "formatted (SendMessage c t m) = (m = Markdown)"
| "formatted (SendMessageWithButtons c t b m) = (m = Markdown)"
| "formatted a = False"

definition notices :: "action list \<Rightarrow> action list" where
  "notices tr = filter formatted tr"

text \<open>
  Reading a trace of the rate-limit classifier from a state that is limited (\<open>b\<close>) or not: a
  rate-limit notice enters the limited state, a recovery notice leaves it and is only
  allowed in it.  The result is the limited state at the end, or \<open>None\<close> when a recovery
  notice stands where the state is not limited.
\<close>

fun limited_after :: "int \<Rightarrow> bool \<Rightarrow> action list \<Rightarrow> bool option" where
  "limited_after chat_id b [] = Some b"
| "limited_after chat_id b (a # tr) =
     (if a = recovery_notice chat_id
      then (if b then limited_after chat_id False tr else None)
      else if formatted a then limited_after chat_id True tr
      else limited_after chat_id b tr)"

text \<open>
  The values the cursor is set to along a trace, and a step that leaves the cursor alone:
  it keeps \<open>offset\<close> and adds no cursor assignment to the trace.
\<close>

fun cursor_events :: "action list \<Rightarrow> int list" where
  "cursor_events [] = []"
| "cursor_events (CursorAdvanced n # tr) = n # cursor_events tr"
| "cursor_events (a # tr) = cursor_events tr"

definition quiet :: "state \<Rightarrow> state \<Rightarrow> bool" where
  "quiet s s' \<longleftrightarrow> offset s' = offset s \<and> (\<exists>as. trace s' = trace s @ as \<and> cursor_events as = [])"

text \<open>
  The text of an update that the loop forwards as a plain chat message: the update is a
  message of the configured chat without photo or document, whose text (or else caption) is
  not empty and does not start with a slash.
\<close>

definition plain_text :: "config \<Rightarrow> update \<Rightarrow> ustring option" where
  "plain_text cfg u =
     (case upd_callback_query u of
        Some cb \<Rightarrow> None
      | None \<Rightarrow>
          (case upd_message u of
             None \<Rightarrow> None
           | Some msg \<Rightarrow>
               if msg_chat_id msg \<noteq> Some (telegram_chat_id cfg) \<or> msg_photo msg \<noteq> [] \<or>
                  msg_document msg \<noteq> None
               then None
               else let text = (if msg_text msg \<noteq> [] then msg_text msg else msg_caption msg)
                    in if text = [] \<or> hd text = 47 then None else Some text))"

fun is_wait :: "action \<Rightarrow> bool" where
  "is_wait (InputDeadline session timeout) = True"
| "is_wait a = False"

text \<open>
  The cursor invariant: the values the cursor was set to are increasing, and none exceeds
  the cursor.
\<close>

definition cursor_inv :: "state \<Rightarrow> bool" where
  "cursor_inv s \<longleftrightarrow>
     sorted_wrt (<) (cursor_events (trace s)) \<and>
     (case offset s of
        None \<Rightarrow> cursor_events (trace s) = []
      | Some k \<Rightarrow> \<forall>n\<in>set (cursor_events (trace s)). n \<le> k)"

text \<open>
  A transport that honours the cursor: the updates of a poll come with increasing
  identifiers, none below the cursor the poll was made with.
\<close>

definition honours_cursor :: "world \<Rightarrow> bool" where
  "honours_cursor w \<longleftrightarrow>
     (\<forall>tr off us. telegram_updates w (tr @ [GetUpdates off 5]) = Updates us \<longrightarrow>
        sorted_wrt (<) (map update_id us) \<and>
        (\<forall>k. off = Some k \<longrightarrow> (\<forall>u\<in>set us. k \<le> update_id u)))"

text \<open>
  The update's chat of origin: the chat of the message a pressed button belongs to, or the
  chat of the message.
\<close>

definition origin_chat :: "update \<Rightarrow> int option" where
  "origin_chat u =
     (case upd_callback_query u of
        Some cb \<Rightarrow> cb_chat_id cb
      | None \<Rightarrow> (case upd_message u of Some msg \<Rightarrow> msg_chat_id msg | None \<Rightarrow> None))"

subsection \<open>Concrete instances for the examples\<close>

text \<open>
  A library with no further characters of category C, no further digits, and the identity
  in the place of the hash; a world given by its screen captures, its answers to sends and
  its updates, in which every other call succeeds and the input prompt is never seen; and a
  configuration.
\<close>

definition example_library :: library where
  "example_library =
     \<lparr>other_category_C = (\<lambda>c. False), other_decimal = (\<lambda>c. False), md5_hexdigest = (\<lambda>t. t)\<rparr>"

definition example_world ::
  "(action list \<Rightarrow> ustring + ustring) \<Rightarrow> (action list \<Rightarrow> ustring option) \<Rightarrow>
   (action list \<Rightarrow> poll_result) \<Rightarrow> world" where
  "example_world cap send upd =
     \<lparr>tmux_capture = cap, tmux_send_keys = (\<lambda>tr. None), tmux_escape = (\<lambda>tr. None),
      tmux_info = (\<lambda>tr. None), polls_before_deadline = (\<lambda>tr. 1), clock_ms = (\<lambda>tr. 0),
      telegram_send = send, telegram_answer = (\<lambda>tr. None),
      telegram_get_file = (\<lambda>tr. Inr (cp ''photos/a.png'')), telegram_download = (\<lambda>tr. None),
      telegram_updates = upd\<rparr>"

text \<open>Two numbered lines with no chrome hint, and a short permission prompt.\<close>

definition options_screen :: ustring where
  "options_screen = cp ''1. Yes'' @ [10] @ cp ''2. No''"

definition prompt_screen :: ustring where
  "prompt_screen = cp ''Do you want to allow it?'' @ [10] @ cp ''1. Yes''"

definition limit_screen :: ustring where
  "limit_screen = cp ''hit your limit''"

text \<open>A world that shows the rate-limit banner to the first check and \<open>scr\<close> from then on.\<close>

definition limit_then :: "ustring \<Rightarrow> world" where
  "limit_then scr =
     example_world (\<lambda>tr. if length tr \<le> 1 then Inr limit_screen else Inr scr)
       (\<lambda>tr. None) (\<lambda>tr. Updates [])"

text \<open>A plain chat message, and the update that brings it from a chat.\<close>

definition text_message :: "int \<Rightarrow> ustring \<Rightarrow> message" where
  "text_message chat t =
     \<lparr>msg_chat_id = Some chat, msg_photo = [], msg_document = None, msg_text = t, msg_caption = []\<rparr>"

definition text_update :: "int \<Rightarrow> int \<Rightarrow> ustring \<Rightarrow> update" where
  "text_update n chat t =
     \<lparr>update_id = n, upd_callback_query = None, upd_message = Some (text_message chat t)\<rparr>"

text \<open>
  A world whose transport delivers update 7, the message \<^verbatim>\<open>hi\<close> from chat 42, to a poll made
  without a cursor, and nothing to any other poll; the screen is blank.
\<close>

definition one_update_world :: world where
  "one_update_world =
     example_world (\<lambda>tr. Inr []) (\<lambda>tr. None)
       (\<lambda>tr. if tr \<noteq> [] \<and> last tr = GetUpdates None 5 then Updates [text_update 7 42 (cp ''hi'')]
             else Updates [])"

text \<open>The world \<open>one_update_world\<close> with a transport on which every send fails.\<close>

definition offline_world :: world where
  "offline_world = one_update_world\<lparr>telegram_send := (\<lambda>tr. Some (cp ''down''))\<rparr>"

definition example_config :: config where
  "example_config =
     \<lparr>telegram_chat_id = 42, tmux_session = cp ''claude'', poll_interval = 2,
      download_dir = cp ''/home/u/.couchclaude/downloads'', start_time_ms = 0\<rparr>"

section \<open>Auxiliary facts\<close>

lemma length_marker: "length marker = 19"
  by (simp add: marker_def cp_def)

lemma ANSI_RE_sub_no_esc: "27 \<notin> set t \<Longrightarrow> ANSI_RE_sub t = t"
  by (induction t) auto

lemma sanitize_text_no_esc: "27 \<notin> set (sanitize_text lib s)"
  by (auto simp: sanitize_text_def category_C_def)

subsection \<open>Traces\<close>

lemma trace_emit [simp]: "trace (emit a s) = trace s @ [a]"
  by (simp add: emit_def)

lemma emit_fields [simp]:
  "last_prompt_hash (emit a s) = last_prompt_hash s"
  "last_ratelimit_hash (emit a s) = last_ratelimit_hash s"
  "ratelimit_waiting (emit a s) = ratelimit_waiting s"
  "offset (emit a s) = offset s"
  "last_screen_check (emit a s) = last_screen_check s"
  "pending_files (emit a s) = pending_files s"
  by (simp_all add: emit_def)

lemma new_actions_self [simp]: "new_actions s s = []"
  by (simp add: new_actions_def)

lemma new_actions_emit [simp]: "new_actions s (emit a s) = [a]"
  by (simp add: new_actions_def)

subsection \<open>The rate-limit classifier, case by case\<close>

lemma ratelimit_capture_failed:
  "captured w session s = Inl e \<Longrightarrow>
   check_for_ratelimit w lib chat_id session s = emit (CapturePane session 20) s"
  by (simp add: check_for_ratelimit_def capture_pane_def captured_def Let_def)

lemma ratelimit_blank:
  "captured w session s = Inr raw \<Longrightarrow> strip (sanitize_text lib raw) = [] \<Longrightarrow>
   check_for_ratelimit w lib chat_id session s = emit (CapturePane session 20) s"
  by (simp add: check_for_ratelimit_def capture_pane_def captured_def Let_def)

lemma ratelimit_clear:
  "captured w session s = Inr raw \<Longrightarrow> strip (sanitize_text lib raw) \<noteq> [] \<Longrightarrow>
   \<not> re_search RATELIMIT_RE (strip (sanitize_text lib raw)) \<Longrightarrow>
   check_for_ratelimit w lib chat_id session s =
     (if ratelimit_waiting s
      then emit (recovery_notice chat_id) (emit (CapturePane session 20) s)
             \<lparr>ratelimit_waiting := False, last_ratelimit_hash := None\<rparr>
      else emit (CapturePane session 20) s\<lparr>last_ratelimit_hash := None\<rparr>)"
  by (simp add: check_for_ratelimit_def capture_pane_def captured_def Let_def send_message_def
      recovery_notice_def emit_def)

lemma ratelimit_suppressed:
  "captured w session s = Inr raw \<Longrightarrow> ratelimit_content lib raw = Some t \<Longrightarrow>
   last_ratelimit_hash s = Some (md5_hexdigest lib t) \<Longrightarrow>
   check_for_ratelimit w lib chat_id session s = emit (CapturePane session 20) s"
  by (auto simp add: check_for_ratelimit_def capture_pane_def captured_def Let_def ratelimit_content_def emit_def
      split: if_splits)

lemma ratelimit_announced:
  "captured w session s = Inr raw \<Longrightarrow> ratelimit_content lib raw = Some t \<Longrightarrow>
   last_ratelimit_hash s \<noteq> Some (md5_hexdigest lib t) \<Longrightarrow>
   check_for_ratelimit w lib chat_id session s =
     (let s2 = emit (ratelimit_notice lib chat_id raw t) (emit (CapturePane session 20) s)
                 \<lparr>last_ratelimit_hash := Some (md5_hexdigest lib t), ratelimit_waiting := True\<rparr>
      in if telegram_send w (trace s2) = None then s2
         else emit (ratelimit_fallback lib chat_id raw t) s2)"
  by (auto simp add: check_for_ratelimit_def capture_pane_def captured_def Let_def ratelimit_content_def emit_def
      send_message_def ratelimit_notice_def ratelimit_fallback_def
      split: if_splits option.splits)

subsection \<open>The prompt classifier, case by case\<close>

lemma prompt_content_SomeD:
  "prompt_content lib raw = Some t \<Longrightarrow>
   strip raw \<noteq> [] \<and> re_search PROMPT_DETECT_RE (strip raw) \<and>
   parse_prompt lib (strip raw) = Some t \<and> t \<noteq> []"
  by (simp add: prompt_content_def split: if_splits option.splits)

lemma prompts_capture_failed:
  "captured w session s = Inl e \<Longrightarrow>
   check_for_prompts w lib chat_id session s = emit (CapturePane session 20) s"
  by (simp add: check_for_prompts_def capture_pane_def captured_def)

lemma prompts_blank:
  "captured w session s = Inr raw \<Longrightarrow> strip raw = [] \<Longrightarrow>
   check_for_prompts w lib chat_id session s = emit (CapturePane session 20) s"
  by (simp add: check_for_prompts_def capture_pane_def captured_def)

lemma prompts_no_chrome:
  "captured w session s = Inr raw \<Longrightarrow> strip raw \<noteq> [] \<Longrightarrow>
   \<not> re_search PROMPT_DETECT_RE (strip raw) \<Longrightarrow>
   check_for_prompts w lib chat_id session s =
     emit (CapturePane session 20) s\<lparr>last_prompt_hash := None\<rparr>"
  by (simp add: check_for_prompts_def capture_pane_def captured_def)

lemma prompts_suppressed:
  assumes "captured w session s = Inr raw" and "prompt_content lib raw = Some t"
    and "last_prompt_hash s = Some (md5_hexdigest lib t)"
  shows "check_for_prompts w lib chat_id session s = emit (CapturePane session 20) s"
  using assms(1,3) prompt_content_SomeD [OF assms(2)]
  by (simp add: check_for_prompts_def capture_pane_def captured_def)

lemma prompts_announced:
  assumes "captured w session s = Inr raw" and "prompt_content lib raw = Some t"
    and "last_prompt_hash s \<noteq> Some (md5_hexdigest lib t)"
  shows "check_for_prompts w lib chat_id session s =
     (let s2 = emit (prompt_notice lib chat_id raw t) (emit (CapturePane session 20) s)
                 \<lparr>last_prompt_hash := Some (md5_hexdigest lib t)\<rparr>
      in if telegram_send w (trace s2) = None then s2
         else emit (prompt_fallback chat_id t) s2)"
proof -
  note c = prompt_content_SomeD [OF assms(2)]
  have h: "Some (md5_hexdigest lib t) \<noteq> last_prompt_hash s" using assms(3) by auto
  show ?thesis
  proof (cases "prompt_buttons lib (strip raw) = []")
    case True
    then show ?thesis using assms(1) h c
      by (simp add: check_for_prompts_def capture_pane_def captured_def Let_def
          send_message_def prompt_notice_def prompt_fallback_def emit_def
          split: option.splits)
  next
    case False
    then show ?thesis using assms(1) h c
      by (simp add: check_for_prompts_def capture_pane_def captured_def Let_def
          send_message_def send_message_with_buttons_def prompt_notice_def prompt_fallback_def emit_def
          split: option.splits)
  qed
qed

subsection \<open>Notices and deduplication\<close>

lemma new_actions_append [simp]: "trace s' = trace s @ as \<Longrightarrow> new_actions s s' = as"
  by (simp add: new_actions_def)

lemma formatted_notices [simp]:
  "formatted (prompt_notice lib chat_id raw t)"
  "\<not> formatted (prompt_fallback chat_id t)"
  "formatted (ratelimit_notice lib chat_id raw t)"
  "\<not> formatted (ratelimit_fallback lib chat_id raw t)"
  "\<not> formatted (recovery_notice chat_id)"
  "\<not> formatted (CapturePane session n)"
  by (simp_all add: prompt_notice_def prompt_fallback_def ratelimit_notice_def
      ratelimit_fallback_def recovery_notice_def Markdown_def HTML_def Let_def cp_def)

lemma prompts_announced_trace:
  assumes "captured w session s = Inr raw" and "prompt_content lib raw = Some t"
    and "last_prompt_hash s \<noteq> Some (md5_hexdigest lib t)"
  shows "last_prompt_hash (check_for_prompts w lib chat_id session s) = Some (md5_hexdigest lib t)"
    and "trace (check_for_prompts w lib chat_id session s) =
           trace s @ [CapturePane session 20, prompt_notice lib chat_id raw t] @
           (if telegram_send w (trace s @ [CapturePane session 20, prompt_notice lib chat_id raw t]) = None
            then [] else [prompt_fallback chat_id t])"
  by (simp_all add: prompts_announced [OF assms] Let_def)

lemma ratelimit_announced_trace:
  assumes "captured w session s = Inr raw" and "ratelimit_content lib raw = Some t"
    and "last_ratelimit_hash s \<noteq> Some (md5_hexdigest lib t)"
  shows "last_ratelimit_hash (check_for_ratelimit w lib chat_id session s) = Some (md5_hexdigest lib t)"
    and "ratelimit_waiting (check_for_ratelimit w lib chat_id session s)"
    and "trace (check_for_ratelimit w lib chat_id session s) =
           trace s @ [CapturePane session 20, ratelimit_notice lib chat_id raw t] @
           (if telegram_send w (trace s @ [CapturePane session 20, ratelimit_notice lib chat_id raw t]) = None
            then [] else [ratelimit_fallback lib chat_id raw t])"
  by (simp_all add: ratelimit_announced [OF assms] Let_def)

lemma dedup_prompts:
  assumes c1: "captured w session s = Inr raw1" and t1: "prompt_content lib raw1 = Some t1"
    and new: "last_prompt_hash s \<noteq> Some (md5_hexdigest lib t1)"
    and s1: "s1 = check_for_prompts w lib chat_id session s"
    and c2: "captured w session s1 = Inr raw2" and t2: "prompt_content lib raw2 = Some t2"
    and s2: "s2 = check_for_prompts w lib chat_id session s1"
  shows "notices (new_actions s s2) =
           (if md5_hexdigest lib t2 = md5_hexdigest lib t1 then [prompt_notice lib chat_id raw1 t1]
            else [prompt_notice lib chat_id raw1 t1, prompt_notice lib chat_id raw2 t2]) \<and>
         last_prompt_hash s2 = Some (md5_hexdigest lib t2)"
proof -
  note a1 = prompts_announced_trace [OF c1 t1 new, of chat_id, folded s1]
  show ?thesis
  proof (cases "md5_hexdigest lib t2 = md5_hexdigest lib t1")
    case True
    with a1(1) have "last_prompt_hash s1 = Some (md5_hexdigest lib t2)" by simp
    from prompts_suppressed [OF c2 t2 this, of chat_id] have "s2 = emit (CapturePane session 20) s1"
      by (simp add: s2)
    with a1 True show ?thesis by (simp add: notices_def)
  next
    case False
    with a1(1) have "last_prompt_hash s1 \<noteq> Some (md5_hexdigest lib t2)" by simp
    note a2 = prompts_announced_trace [OF c2 t2 this, of chat_id, folded s2]
    from a1 a2 False show ?thesis by (simp add: notices_def)
  qed
qed

lemma dedup_ratelimit:
  assumes c1: "captured w session s = Inr raw1" and t1: "ratelimit_content lib raw1 = Some t1"
    and new: "last_ratelimit_hash s \<noteq> Some (md5_hexdigest lib t1)"
    and s1: "s1 = check_for_ratelimit w lib chat_id session s"
    and c2: "captured w session s1 = Inr raw2" and t2: "ratelimit_content lib raw2 = Some t2"
    and s2: "s2 = check_for_ratelimit w lib chat_id session s1"
  shows "notices (new_actions s s2) =
           (if md5_hexdigest lib t2 = md5_hexdigest lib t1 then [ratelimit_notice lib chat_id raw1 t1]
            else [ratelimit_notice lib chat_id raw1 t1, ratelimit_notice lib chat_id raw2 t2]) \<and>
         last_ratelimit_hash s2 = Some (md5_hexdigest lib t2)"
proof -
  note a1 = ratelimit_announced_trace [OF c1 t1 new, of chat_id, folded s1]
  show ?thesis
  proof (cases "md5_hexdigest lib t2 = md5_hexdigest lib t1")
    case True
    with a1(1) have "last_ratelimit_hash s1 = Some (md5_hexdigest lib t2)" by simp
    from ratelimit_suppressed [OF c2 t2 this, of chat_id] have "s2 = emit (CapturePane session 20) s1"
      by (simp add: s2)
    with a1 True show ?thesis by (simp add: notices_def)
  next
    case False
    with a1(1) have "last_ratelimit_hash s1 \<noteq> Some (md5_hexdigest lib t2)" by simp
    note a2 = ratelimit_announced_trace [OF c2 t2 this, of chat_id, folded s2]
    from a1 a2 False show ?thesis by (simp add: notices_def)
  qed
qed

subsection \<open>The example screens, evaluated\<close>

lemma example_world_sel [simp]:
  "tmux_capture (example_world cap send upd) = cap"
  "telegram_send (example_world cap send upd) = send"
  "telegram_updates (example_world cap send upd) = upd"
  by (simp_all add: example_world_def)


lemmas text_defs = strip_def lstrip_def rstrip_def isspace_def cp_def linebreak_def splitlines_def
  category_C_def isdecimal_def ci_eq_def lower_def sanitize_text_def ANSI_RE_after_esc_def
  separator_char_def option_lead_def question_lead_def chrome_lead_def example_library_def

lemma strip_prompt_screen: "strip prompt_screen = prompt_screen"
  by (simp add: prompt_screen_def text_defs)

lemma prompt_screen_chrome: "re_search PROMPT_DETECT_RE prompt_screen"
  by (simp add: prompt_screen_def PROMPT_DETECT_RE_def text_defs)

lemma sanitize_prompt_screen: "sanitize_text example_library prompt_screen = prompt_screen"
  by (simp add: prompt_screen_def text_defs)

lemma splitlines_prompt_screen: "splitlines prompt_screen = [cp ''Do you want to allow it?'', cp ''1. Yes'']"
  by (simp add: prompt_screen_def text_defs)

lemma parse_parts_prompt_screen:
  "parse_prompt_parts example_library prompt_screen =
     Some \<lparr>question = Some (cp ''Do you want to allow it?''), options = [cp ''1. Yes'']\<rparr>"
  by (simp add: parse_prompt_parts_def sanitize_prompt_screen splitlines_prompt_screen)
     (simp add: text_defs OPTION_RE_match_def SELECTOR_RE_def)

lemma parse_prompt_screen:
  "parse_prompt example_library prompt_screen = Some (cp ''Do you want to allow it?'' @ [10, 10] @ cp ''1. Yes'')"
  by (simp add: parse_prompt_def parse_parts_prompt_screen) (simp add: cp_def)

lemma prompt_content_example:
  "prompt_content example_library prompt_screen =
     Some (cp ''Do you want to allow it?'' @ [10, 10] @ cp ''1. Yes'')"
  by (simp add: prompt_content_def strip_prompt_screen prompt_screen_chrome parse_prompt_screen)
     (simp add: prompt_screen_def cp_def)

lemma ratelimit_content_example:
  "ratelimit_content example_library limit_screen = Some (cp ''hit your limit'')"
  by (simp add: ratelimit_content_def limit_screen_def RATELIMIT_RE_def text_defs)

lemma strip_options_screen: "strip options_screen = options_screen"
  by (simp add: strip_def lstrip_def rstrip_def isspace_def cp_def options_screen_def)

lemma options_screen_no_chrome: "\<not> re_search PROMPT_DETECT_RE options_screen"
  by (simp add: PROMPT_DETECT_RE_def cp_def ci_eq_def lower_def options_screen_def)


subsection \<open>Checks of an unchanged screen\<close>

lemma unchanged_screen_prompts:
  assumes cap: "\<forall>tr. tmux_capture w tr = Inr raw" and t: "prompt_content lib raw = Some t"
    and h: "last_prompt_hash s = Some (md5_hexdigest lib t)"
  shows "((check_for_prompts w lib chat_id session) ^^ n) s =
           s\<lparr>trace := trace s @ replicate n (CapturePane session 20)\<rparr>"
proof (induction n)
  case 0
  show ?case by simp
next
  case (Suc n)
  let ?s = "s\<lparr>trace := trace s @ replicate n (CapturePane session 20)\<rparr>"
  have c: "captured w session ?s = Inr raw" using cap by (simp add: captured_def)
  have "last_prompt_hash ?s = Some (md5_hexdigest lib t)" using h by simp
  from prompts_suppressed [OF c t this, of chat_id] Suc.IH show ?case
    by (simp add: emit_def replicate_append_same)
qed

lemma unchanged_screen_ratelimit:
  assumes cap: "\<forall>tr. tmux_capture w tr = Inr raw" and t: "ratelimit_content lib raw = Some t"
    and h: "last_ratelimit_hash s = Some (md5_hexdigest lib t)"
  shows "((check_for_ratelimit w lib chat_id session) ^^ n) s =
           s\<lparr>trace := trace s @ replicate n (CapturePane session 20)\<rparr>"
proof (induction n)
  case 0
  show ?case by simp
next
  case (Suc n)
  let ?s = "s\<lparr>trace := trace s @ replicate n (CapturePane session 20)\<rparr>"
  have c: "captured w session ?s = Inr raw" using cap by (simp add: captured_def)
  have "last_ratelimit_hash ?s = Some (md5_hexdigest lib t)" using h by simp
  from ratelimit_suppressed [OF c t this, of chat_id] Suc.IH show ?case
    by (simp add: emit_def replicate_append_same)
qed

subsection \<open>Runs of the rate-limit classifier\<close>

lemma ratelimit_content_NoneD:
  "ratelimit_content lib raw = None \<Longrightarrow> re_search RATELIMIT_RE (strip (sanitize_text lib raw)) \<Longrightarrow>
   strip (sanitize_text lib raw) \<noteq> [] \<Longrightarrow>
   relevant_lines (splitlines (strip (sanitize_text lib raw))) = []"
  by (simp add: ratelimit_content_def Let_def split: if_splits)

lemma ratelimit_nothing_extracted:
  assumes "captured w session s = Inr raw" and "re_search RATELIMIT_RE (strip (sanitize_text lib raw))"
    and "ratelimit_content lib raw = None"
  shows "check_for_ratelimit w lib chat_id session s = emit (CapturePane session 20) s"
proof (cases "strip (sanitize_text lib raw) = []")
  case True
  with assms(1) show ?thesis by (rule ratelimit_blank)
next
  case False
  with assms ratelimit_content_NoneD [OF assms(3,2) False] show ?thesis
    by (simp add: check_for_ratelimit_def capture_pane_def captured_def)
qed

lemma recovery_notice_neq [simp]:
  "CapturePane session n \<noteq> recovery_notice chat_id"
  "ratelimit_notice lib chat_id raw t \<noteq> recovery_notice chat_id"
  "ratelimit_fallback lib chat_id raw t \<noteq> recovery_notice chat_id"
  by (simp_all add: recovery_notice_def ratelimit_notice_def ratelimit_fallback_def
      Markdown_def HTML_def cp_def)

lemma limited_after_append:
  "limited_after chat_id b (tr @ tr') =
     (case limited_after chat_id b tr of None \<Rightarrow> None | Some b' \<Rightarrow> limited_after chat_id b' tr')"
  by (induction tr arbitrary: b) auto

text \<open>What one check adds to the trace, in each of its cases.\<close>

lemma ratelimit_step:
  "\<exists>as. trace (check_for_ratelimit w lib chat_id session s) = trace s @ as \<and>
        limited_after chat_id (ratelimit_waiting s) as =
          Some (ratelimit_waiting (check_for_ratelimit w lib chat_id session s))"
proof (cases "captured w session s")
  case (Inl e)
  then show ?thesis by (simp add: ratelimit_capture_failed)
next
  case (Inr raw)
  show ?thesis
  proof (cases "strip (sanitize_text lib raw) = []")
    case True
    with Inr show ?thesis by (simp add: ratelimit_blank)
  next
    case False
    show ?thesis
    proof (cases "re_search RATELIMIT_RE (strip (sanitize_text lib raw))")
      case no: False
      from ratelimit_clear [OF Inr False no, of chat_id] show ?thesis by simp
    next
      case sig: True
      show ?thesis
      proof (cases "ratelimit_content lib raw")
        case None
        from ratelimit_nothing_extracted [OF Inr sig None, of chat_id] show ?thesis by simp
      next
        case (Some t)
        show ?thesis
        proof (cases "last_ratelimit_hash s = Some (md5_hexdigest lib t)")
          case True
          from ratelimit_suppressed [OF Inr Some True, of chat_id] show ?thesis by simp
        next
          case False
          from ratelimit_announced_trace [OF Inr Some False, of chat_id] show ?thesis by simp
        qed
      qed
    qed
  qed
qed

lemma ratelimit_run_alternates:
  "limited_after chat_id False (trace (((check_for_ratelimit w lib chat_id session) ^^ n) initial_state)) =
     Some (ratelimit_waiting (((check_for_ratelimit w lib chat_id session) ^^ n) initial_state))"
proof (induction n)
  case 0
  show ?case by (simp add: initial_state_def)
next
  case (Suc n)
  let ?s = "((check_for_ratelimit w lib chat_id session) ^^ n) initial_state"
  from ratelimit_step [of w lib chat_id session ?s] obtain as where
    "trace (check_for_ratelimit w lib chat_id session ?s) = trace ?s @ as"
    "limited_after chat_id (ratelimit_waiting ?s) as =
       Some (ratelimit_waiting (check_for_ratelimit w lib chat_id session ?s))"
    by blast
  with Suc.IH show ?case by (simp add: limited_after_append)
qed

lemma ratelimit_signature_no_recovery:
  assumes "captured w session s = Inr raw" and sig: "re_search RATELIMIT_RE (strip (sanitize_text lib raw))"
  shows "recovery_notice chat_id \<notin> set (new_actions s (check_for_ratelimit w lib chat_id session s))"
proof (cases "ratelimit_content lib raw")
  case None
  from ratelimit_nothing_extracted [OF assms None, of chat_id] show ?thesis
    by (simp add: eq_commute [of "recovery_notice chat_id"])
next
  case (Some t)
  show ?thesis
  proof (cases "last_ratelimit_hash s = Some (md5_hexdigest lib t)")
    case True
    from ratelimit_suppressed [OF assms(1) Some True, of chat_id] show ?thesis
      by (simp add: eq_commute [of "recovery_notice chat_id"])
  next
    case False
    from ratelimit_announced_trace [OF assms(1) Some False, of chat_id] show ?thesis
      by (simp add: eq_commute [of "recovery_notice chat_id"])
  qed
qed

lemma ok_screen:
  "strip (sanitize_text example_library (cp ''ok'')) = cp ''ok''"
  "\<not> re_search RATELIMIT_RE (cp ''ok'')"
  "strip (sanitize_text example_library []) = []"
  "\<not> re_search RATELIMIT_RE []"
  "\<not> RATELIMIT_RE []"
  "cp ''ok'' \<noteq> []"
  by (simp_all add: RATELIMIT_RE_def text_defs)

lemma first_limit_check:
  assumes "tmux_capture w [CapturePane session 20] = Inr limit_screen"
    and "telegram_send w [CapturePane session 20, ratelimit_notice example_library chat_id limit_screen (cp ''hit your limit'')] = None"
  shows "trace (check_for_ratelimit w example_library chat_id session initial_state) =
           [CapturePane session 20, ratelimit_notice example_library chat_id limit_screen (cp ''hit your limit'')]"
    and "ratelimit_waiting (check_for_ratelimit w example_library chat_id session initial_state)"
proof -
  have c: "captured w session initial_state = Inr limit_screen"
    using assms(1) by (simp add: captured_def initial_state_def)
  have h: "last_ratelimit_hash initial_state \<noteq> Some (md5_hexdigest example_library (cp ''hit your limit''))"
    by (simp add: initial_state_def)
  note a = ratelimit_announced_trace [OF c ratelimit_content_example h, of chat_id]
  from a(3) assms(2) show "trace (check_for_ratelimit w example_library chat_id session initial_state) =
           [CapturePane session 20, ratelimit_notice example_library chat_id limit_screen (cp ''hit your limit'')]"
    by (simp add: initial_state_def)
  from a(2) show "ratelimit_waiting (check_for_ratelimit w example_library chat_id session initial_state)" .
qed

lemma limit_then_sel [simp]:
  "tmux_capture (limit_then scr) tr = (if length tr \<le> 1 then Inr limit_screen else Inr scr)"
  "telegram_send (limit_then scr) tr = None"
  by (simp_all add: limit_then_def)

subsection \<open>The option lines of a screen\<close>

lemma collect_options_filter:
  "fst (collect_options lib i lines opts first) =
     opts @ map (option_text lib) (filter (is_option_line lib) lines)"
proof (induction lines arbitrary: i opts first)
  case Nil
  show ?case by simp
next
  case (Cons line rest)
  show ?case
    by (cases "OPTION_RE_match lib line")
       (auto simp: Cons.IH Let_def is_option_line_def option_text_def)
qed

lemma OPTION_RE_match_digits:
  "OPTION_RE_match lib line = Some (g1, g2) \<Longrightarrow>
   g1 = takeWhile (isdecimal lib) (dropWhile option_lead line) \<and> g1 \<noteq> []"
  by (auto simp: OPTION_RE_match_def Let_def split: if_splits list.splits)

lemma parse_prompt_parts_options:
  "parse_prompt_parts lib screen = Some parsed \<Longrightarrow>
   options parsed = map (option_text lib) (filter (is_option_line lib) (splitlines (sanitize_text lib screen)))"
  using collect_options_filter [of lib 0 "splitlines (sanitize_text lib screen)" "[]" None]
  by (auto simp: parse_prompt_parts_def Let_def split: prod.splits if_splits)

lemma option_text_digits:
  "is_option_line lib line \<Longrightarrow>
   \<exists>g2. option_text lib line = takeWhile (isdecimal lib) (dropWhile option_lead line) @ cp ''. '' @ strip g2"
  using OPTION_RE_match_digits [of lib line]
  by (auto simp: is_option_line_def option_text_def)

lemma sanitize_yes_no:
  "\<not> other_category_C lib 10095 \<Longrightarrow> sanitize_text lib yes_no_screen = yes_no_screen"
  by (simp add: yes_no_screen_def sanitize_text_def category_C_def cp_def)

lemma splitlines_yes_no:
  "splitlines yes_no_screen = [[10095] @ cp '' 1. Yes'', cp ''  2. No'']"
  by (simp add: yes_no_screen_def splitlines_def linebreak_def cp_def)

lemma parse_yes_no:
  "\<not> other_category_C lib 10095 \<Longrightarrow>
   parse_prompt_parts lib yes_no_screen = Some \<lparr>question = None, options = [cp ''1. Yes'', cp ''2. No'']\<rparr>"
  by (simp add: parse_prompt_parts_def sanitize_yes_no splitlines_yes_no)
     (simp add: strip_def lstrip_def rstrip_def isspace_def cp_def isdecimal_def ci_eq_def lower_def
        separator_char_def option_lead_def OPTION_RE_match_def SELECTOR_RE_def)

lemma buttons_yes_no:
  "\<not> other_category_C lib 10095 \<Longrightarrow>
   prompt_buttons lib yes_no_screen =
     [\<lparr>button_text = [9989] @ cp '' Yes'', callback_data = cp ''1''\<rparr>,
      \<lparr>button_text = [128260] @ cp '' No'', callback_data = cp ''2''\<rparr>]"
  by (simp add: prompt_buttons_def parse_yes_no)
     (simp add: strip_def lstrip_def rstrip_def isspace_def cp_def btn_emojis_def)

subsection \<open>Steps that leave the cursor alone\<close>

lemma cursor_events_append [simp]: "cursor_events (xs @ ys) = cursor_events xs @ cursor_events ys"
  by (induction xs rule: cursor_events.induct) auto

lemma quiet_refl [simp]: "quiet s s"
  by (simp add: quiet_def)

lemma quiet_trans: "quiet s s' \<Longrightarrow> quiet s' s'' \<Longrightarrow> quiet s s''"
  by (auto simp: quiet_def)

lemma quiet_emit: "cursor_events [a] = [] \<Longrightarrow> quiet s' s \<Longrightarrow> quiet s' (emit a s)"
  by (auto simp: quiet_def emit_def)

lemma quiet_update [simp]:
  "quiet s' (s\<lparr>last_prompt_hash := h\<rparr>) = quiet s' s"
  "quiet s' (s\<lparr>last_ratelimit_hash := h\<rparr>) = quiet s' s"
  "quiet s' (s\<lparr>ratelimit_waiting := b\<rparr>) = quiet s' s"
  "quiet s' (s\<lparr>last_screen_check := n\<rparr>) = quiet s' s"
  "quiet s' (s\<lparr>pending_files := fs\<rparr>) = quiet s' s"
  by (simp_all add: quiet_def)

lemma quiet_primitives:
  "quiet s0 s \<Longrightarrow> quiet s0 (snd (capture_pane w session n s))"
  "quiet s0 s \<Longrightarrow> quiet s0 (snd (send_keys w session t s))"
  "quiet s0 s \<Longrightarrow> quiet s0 (snd (send_escape w session s))"
  "quiet s0 s \<Longrightarrow> quiet s0 (sleep ms s)"
  "quiet s0 s \<Longrightarrow> quiet s0 (save_snapshot session s)"
  "quiet s0 s \<Longrightarrow> quiet s0 (snd (get_session_info w session s))"
  "quiet s0 s \<Longrightarrow> quiet s0 (snd (send_message w chat_id t mode s))"
  "quiet s0 s \<Longrightarrow> quiet s0 (snd (send_message_with_buttons w chat_id t bs mode s))"
  "quiet s0 s \<Longrightarrow> quiet s0 (snd (answer_callback_query w q t s))"
  "quiet s0 s \<Longrightarrow> quiet s0 (snd (get_file w f s))"
  "quiet s0 s \<Longrightarrow> quiet s0 (snd (download_file w f d s))"
  "quiet s0 s \<Longrightarrow> quiet s0 (snd (time_ms w s))"
  by (simp_all add: capture_pane_def send_keys_def send_escape_def sleep_def save_snapshot_def
      get_session_info_def send_message_def send_message_with_buttons_def answer_callback_query_def
      get_file_def download_file_def time_ms_def Let_def quiet_emit)

lemma quiet_wait_loop: "quiet s0 s \<Longrightarrow> quiet s0 (snd (wait_loop w session n s))"
proof (induction n arbitrary: s)
  case 0
  then show ?case by simp
next
  case (Suc n)
  have q: "quiet s0 (snd (capture_pane w session 5 s))" using Suc.prems by (rule quiet_primitives)
  show ?case
    by (cases "capture_pane w session 5 s")
       (use q in \<open>auto split: sum.splits intro!: Suc.IH quiet_primitives\<close>)
qed

lemma quiet_wait_for_input: "quiet s0 s \<Longrightarrow> quiet s0 (snd (wait_for_input w session timeout s))"
  by (simp add: wait_for_input_def Let_def quiet_wait_loop quiet_emit)

lemmas primitive_defs = capture_pane_def send_keys_def send_escape_def sleep_def save_snapshot_def
  get_session_info_def send_message_def send_message_with_buttons_def answer_callback_query_def
  get_file_def download_file_def time_ms_def

lemma quiet_format_uptime: "quiet s0 s \<Longrightarrow> quiet s0 (snd (format_uptime w cfg s))"
  by (simp add: format_uptime_def time_ms_def Let_def quiet_emit)

lemma quiet_inject_and_report:
  "quiet s0 s \<Longrightarrow> quiet s0 (snd (inject_and_report w chat_id session keys done failed s))"
  by (simp add: inject_and_report_def primitive_defs Let_def quiet_emit split: option.splits)

lemma quiet_handle_callback:
  "quiet s0 s \<Longrightarrow> quiet s0 (snd (handle_callback w chat_id cfg cb s))"
  by (simp add: handle_callback_def primitive_defs Let_def quiet_emit split: option.splits)

lemma snd_handled [simp]: "snd (handled r) = snd r"
  by (simp add: handled_def split: prod.splits option.splits)

lemma quiet_ping_command: "quiet s0 s \<Longrightarrow> quiet s0 (snd (ping_command w chat_id cfg s))"
  by (simp add: ping_command_def format_uptime_def primitive_defs Let_def quiet_emit)

lemma quiet_esc_command: "quiet s0 s \<Longrightarrow> quiet s0 (snd (esc_command w chat_id session s))"
  by (simp add: esc_command_def primitive_defs Let_def quiet_emit split: option.splits)

lemma quiet_status_command: "quiet s0 s \<Longrightarrow> quiet s0 (snd (status_command w chat_id cfg s))"
  by (simp add: status_command_def format_uptime_def primitive_defs Let_def quiet_emit
      split: option.splits prod.splits)

lemma quiet_view_command: "quiet s0 s \<Longrightarrow> quiet s0 (snd (view_command w lib chat_id session s))"
  by (simp add: view_command_def primitive_defs Let_def quiet_emit split: option.splits sum.splits)

lemma quiet_if: "quiet s0 (snd a) \<Longrightarrow> quiet s0 (snd b) \<Longrightarrow> quiet s0 (snd (if c then a else b))"
  by simp

lemma quiet_handle_command:
  assumes "quiet s0 s"
  shows "quiet s0 (snd (handle_command w lib chat_id cfg text s))"
  unfolding handle_command_def Let_def
  by (intro quiet_if)
     (simp_all add: assms quiet_ping_command quiet_esc_command quiet_status_command
        quiet_view_command quiet_inject_and_report quiet_primitives)

lemma quiet_download_photo:
  "quiet s0 s \<Longrightarrow> quiet s0 (snd (download_photo w cfg msg s))"
  by (simp add: download_photo_def primitive_defs Let_def quiet_emit split: option.splits sum.splits)

lemma quiet_download_document:
  "quiet s0 s \<Longrightarrow> quiet s0 (snd (download_document w cfg doc msg s))"
  by (simp add: download_document_def primitive_defs Let_def quiet_emit split: option.splits sum.splits)

lemma quiet_inject_files:
  "quiet s0 s \<Longrightarrow> quiet s0 (snd (inject_files w chat_id session prompt count s))"
  by (simp add: inject_files_def primitive_defs Let_def quiet_emit split: option.splits)

lemma quiet_send_files_to_claude:
  assumes "quiet s0 s"
  shows "quiet s0 (snd (send_files_to_claude w chat_id session files s))"
proof -
  obtain idle s1 where w: "wait_for_input w session 30 s = (idle, s1)"
    by (cases "wait_for_input w session 30 s")
  with quiet_wait_for_input [OF assms, of w session 30] have q1: "quiet s0 s1" by simp
  show ?thesis
  proof (cases idle)
    case True
    with w q1 show ?thesis by (simp add: send_files_to_claude_def Let_def quiet_inject_files)
  next
    case False
    obtain r s2 where m: "send_message w chat_id input_warning None s1 = (r, s2)"
      by (cases "send_message w chat_id input_warning None s1")
    with quiet_primitives(7) [OF q1, of w chat_id input_warning None] have q2: "quiet s0 s2" by simp
    from False w m q2 show ?thesis
      by (cases r) (simp_all add: send_files_to_claude_def Let_def quiet_inject_files)
  qed
qed

lemma quiet_handle_update:
  assumes "quiet s0 s"
  shows "quiet s0 (snd (handle_update w lib cfg u s))"
proof (cases "upd_callback_query u")
  case (Some cb)
  with assms show ?thesis by (simp add: handle_update_def Let_def quiet_handle_callback)
next
  case None
  note nocb = None
  show ?thesis
  proof (cases "upd_message u")
    case None
    with nocb assms show ?thesis by (simp add: handle_update_def Let_def)
  next
    case (Some msg)
    show ?thesis
    proof (cases "msg_chat_id msg \<noteq> Some (telegram_chat_id cfg)")
      case True
      with nocb Some assms show ?thesis by (simp add: handle_update_def Let_def)
    next
      case auth: False
      show ?thesis
      proof (cases "msg_photo msg \<noteq> []")
        case True
        obtain r s1 where d: "download_photo w cfg msg s = (r, s1)"
          by (cases "download_photo w cfg msg s")
        with quiet_download_photo [OF assms, of w cfg msg] have q1: "quiet s0 s1" by simp
        from nocb Some auth True d q1 show ?thesis
          by (simp add: handle_update_def Let_def quiet_primitives split: sum.splits option.splits)
      next
        case nophoto: False
        show ?thesis
        proof (cases "msg_document msg")
          case (Some doc)
          obtain r s1 where d: "download_document w cfg doc msg s = (r, s1)"
            by (cases "download_document w cfg doc msg s")
          with quiet_download_document [OF assms, of w cfg doc msg] have q1: "quiet s0 s1" by simp
          from nocb \<open>upd_message u = Some msg\<close> auth nophoto Some d q1 show ?thesis
            by (simp add: handle_update_def Let_def quiet_primitives split: sum.splits option.splits)
        next
          case None
          with nocb \<open>upd_message u = Some msg\<close> auth nophoto assms show ?thesis
            by (simp add: handle_update_def Let_def quiet_handle_command quiet_inject_and_report)
        qed
      qed
    qed
  qed
qed

lemma prompts_nothing_extracted:
  assumes "captured w session s = Inr raw" and "prompt_content lib raw = None"
    and "re_search PROMPT_DETECT_RE (strip raw)"
  shows "check_for_prompts w lib chat_id session s = emit (CapturePane session 20) s"
proof (cases "strip raw = []")
  case True
  with assms(1) show ?thesis by (rule prompts_blank)
next
  case False
  with assms show ?thesis
    by (simp add: check_for_prompts_def capture_pane_def captured_def prompt_content_def
        split: option.splits if_splits)
qed

lemma quiet_check_for_prompts:
  assumes "quiet s0 s"
  shows "quiet s0 (check_for_prompts w lib chat_id session s)"
proof (cases "captured w session s")
  case (Inl e)
  with assms show ?thesis by (simp add: prompts_capture_failed quiet_emit)
next
  case (Inr raw)
  show ?thesis
  proof (cases "re_search PROMPT_DETECT_RE (strip raw)")
    case False
    with Inr assms show ?thesis
      by (cases "strip raw = []") (simp_all add: prompts_blank prompts_no_chrome quiet_emit)
  next
    case True
    show ?thesis
    proof (cases "prompt_content lib raw")
      case None
      with Inr True assms show ?thesis by (simp add: prompts_nothing_extracted quiet_emit)
    next
      case (Some t)
      show ?thesis
      proof (cases "last_prompt_hash s = Some (md5_hexdigest lib t)")
        case True
        with Inr Some assms show ?thesis by (simp add: prompts_suppressed quiet_emit)
      next
        case False
        have "cursor_events [prompt_notice lib chat_id raw t] = []"
          "cursor_events [prompt_fallback chat_id t] = []"
          by (simp_all add: prompt_notice_def prompt_fallback_def Let_def)
        with assms show ?thesis
          by (simp add: prompts_announced [OF Inr Some False] Let_def quiet_emit)
      qed
    qed
  qed
qed

lemma quiet_check_for_ratelimit:
  assumes "quiet s0 s"
  shows "quiet s0 (check_for_ratelimit w lib chat_id session s)"
proof (cases "captured w session s")
  case (Inl e)
  with assms show ?thesis by (simp add: ratelimit_capture_failed quiet_emit)
next
  case (Inr raw)
  show ?thesis
  proof (cases "re_search RATELIMIT_RE (strip (sanitize_text lib raw))")
    case False
    have "cursor_events [recovery_notice chat_id] = []" by (simp add: recovery_notice_def)
    with False Inr assms show ?thesis
      by (cases "strip (sanitize_text lib raw) = []")
         (simp_all add: ratelimit_blank ratelimit_clear quiet_emit)
  next
    case True
    show ?thesis
    proof (cases "ratelimit_content lib raw")
      case None
      with Inr True assms show ?thesis by (simp add: ratelimit_nothing_extracted quiet_emit)
    next
      case (Some t)
      show ?thesis
      proof (cases "last_ratelimit_hash s = Some (md5_hexdigest lib t)")
        case True
        with Inr Some assms show ?thesis by (simp add: ratelimit_suppressed quiet_emit)
      next
        case False
        have "cursor_events [ratelimit_notice lib chat_id raw t] = []"
          "cursor_events [ratelimit_fallback lib chat_id raw t] = []"
          by (simp_all add: ratelimit_notice_def ratelimit_fallback_def)
        with assms show ?thesis
          by (simp add: ratelimit_announced [OF Inr Some False] Let_def quiet_emit)
      qed
    qed
  qed
qed

subsection \<open>Updates from other chats\<close>

lemma handle_update_unauthorized:
  "origin_chat u \<noteq> Some (telegram_chat_id cfg) \<Longrightarrow> handle_update w lib cfg u s = (None, s)"
  by (auto simp: handle_update_def origin_chat_def Let_def split: option.splits)

lemma process_updates_unauthorized:
  "\<forall>u\<in>set us. origin_chat u \<noteq> Some (telegram_chat_id cfg) \<Longrightarrow>
   process_updates w lib cfg us s =
     (None, s\<lparr>offset := (if us = [] then offset s else Some (update_id (last us) + 1)),
              trace := trace s @ map (\<lambda>u. CursorAdvanced (update_id u + 1)) us\<rparr>)"
proof (induction us arbitrary: s)
  case Nil
  show ?case by simp
next
  case (Cons u us)
  then show ?case
    by (simp add: process_update_def handle_update_unauthorized emit_def)
qed

subsection \<open>The cursor along the poll loop\<close>

lemma cursor_inv_quiet: "quiet s s' \<Longrightarrow> cursor_inv s \<Longrightarrow> cursor_inv s'"
  by (auto simp: quiet_def cursor_inv_def split: option.splits)

lemma process_update_cursor:
  "\<exists>as. trace (snd (process_update w lib cfg u s)) = trace s @ CursorAdvanced (update_id u + 1) # as \<and>
        cursor_events as = [] \<and>
        offset (snd (process_update w lib cfg u s)) = Some (update_id u + 1)"
proof -
  let ?s = "emit (CursorAdvanced (update_id u + 1)) (s\<lparr>offset := Some (update_id u + 1)\<rparr>)"
  from quiet_handle_update [of ?s ?s w lib cfg u]
  show ?thesis by (auto simp: quiet_def process_update_def)
qed

lemma cursor_inv_process_update:
  assumes "cursor_inv s" and "\<forall>k. offset s = Some k \<longrightarrow> k \<le> update_id u"
  shows "cursor_inv (snd (process_update w lib cfg u s))"
proof -
  from process_update_cursor [of w lib cfg u s] obtain as where
    t: "trace (snd (process_update w lib cfg u s)) = trace s @ CursorAdvanced (update_id u + 1) # as"
    and c: "cursor_events as = []"
    and o: "offset (snd (process_update w lib cfg u s)) = Some (update_id u + 1)"
    by blast
  from assms show ?thesis
    by (cases "offset s") (fastforce simp: cursor_inv_def t c o sorted_wrt_append)+
qed

lemma cursor_inv_process_updates:
  assumes "cursor_inv s" and "sorted_wrt (<) (map update_id us)"
    and "\<forall>k. offset s = Some k \<longrightarrow> (\<forall>u\<in>set us. k \<le> update_id u)"
  shows "cursor_inv (snd (process_updates w lib cfg us s))"
  using assms
proof (induction us arbitrary: s)
  case Nil
  then show ?case by simp
next
  case (Cons u us)
  obtain r s1 where p: "process_update w lib cfg u s = (r, s1)"
    by (cases "process_update w lib cfg u s")
  from cursor_inv_process_update [of s u w lib cfg] Cons.prems p have i1: "cursor_inv s1" by simp
  from process_update_cursor [of w lib cfg u s] p have o1: "offset s1 = Some (update_id u + 1)" by auto
  show ?case
  proof (cases r)
    case (Some e)
    with p i1 show ?thesis by simp
  next
    case None
    from Cons.prems(2) have "sorted_wrt (<) (map update_id us)" "\<forall>u'\<in>set us. update_id u + 1 \<le> update_id u'"
      by auto
    with Cons.IH [OF i1] o1 have "cursor_inv (snd (process_updates w lib cfg us s1))" by simp
    with p None show ?thesis by simp
  qed
qed

lemma cursor_inv_main_iteration:
  assumes "cursor_inv s" and "honours_cursor w"
  shows "cursor_inv (snd (main_iteration w lib cfg s))"
proof -
  let ?s0 = "emit (GetUpdates (offset s) 5) s"
  have q0: "quiet s ?s0" by (simp add: quiet_emit)
  show ?thesis
  proof (cases "telegram_updates w (trace ?s0)")
    case Interrupted
    with cursor_inv_quiet [OF q0 assms(1)] show ?thesis by (simp add: main_iteration_def Let_def)
  next
    case (Failed e)
    with cursor_inv_quiet [OF quiet_primitives(4) [OF q0] assms(1)] show ?thesis
      by (simp add: main_iteration_def Let_def)
  next
    case (Updates us)
    with assms(2) have srt: "sorted_wrt (<) (map update_id us)"
      and low: "\<forall>k. offset s = Some k \<longrightarrow> (\<forall>u\<in>set us. k \<le> update_id u)"
      by (auto simp: honours_cursor_def)
    obtain now s1 where t: "time_ms w ?s0 = (now, s1)" by (cases "time_ms w ?s0")
    with quiet_primitives(12) [OF q0, of w] have q1: "quiet s s1" by simp
    define s2 where "s2 = (if 5000 \<le> now - last_screen_check s1
                            then check_for_ratelimit w lib (telegram_chat_id cfg) (tmux_session cfg)
                                   (check_for_prompts w lib (telegram_chat_id cfg) (tmux_session cfg)
                                      (s1\<lparr>last_screen_check := now\<rparr>))
                            else s1)"
    have q2: "quiet s s2"
      using q1 by (simp add: s2_def quiet_check_for_ratelimit quiet_check_for_prompts)
    let ?s2 = "s2\<lparr>pending_files := []\<rparr>"
    have q2': "quiet s ?s2" using q2 by simp
    then have o2: "offset ?s2 = offset s" by (simp add: quiet_def)
    obtain r s3 where p: "process_updates w lib cfg us ?s2 = (r, s3)"
      by (cases "process_updates w lib cfg us ?s2")
    from cursor_inv_process_updates [OF cursor_inv_quiet [OF q2' assms(1)] srt, of w lib cfg] low o2 p
    have i3: "cursor_inv s3" by simp
    have m: "main_iteration w lib cfg s =
               (case r of
                  Some e \<Rightarrow> (Crash e, s3)
                | None \<Rightarrow>
                    if pending_files s3 = [] then (Continue, s3)
                    else (case send_files_to_claude w (telegram_chat_id cfg) (tmux_session cfg) (pending_files s3) s3 of
                            (None, s4) \<Rightarrow> (Continue, s4)
                          | (Some e, s4) \<Rightarrow>
                              (case send_message w (telegram_chat_id cfg)
                                      ([10060] @ cp '' File send error: '' @ e) None s4 of
                                 (None, s5) \<Rightarrow> (Continue, s5)
                               | (Some e', s5) \<Rightarrow> (Crash e', s5))))"
      using Updates t p by (simp add: main_iteration_def Let_def s2_def)
    show ?thesis
    proof (cases r)
      case (Some e)
      with m i3 show ?thesis by simp
    next
      case None
      show ?thesis
      proof (cases "pending_files s3 = []")
        case True
        with m None i3 show ?thesis by simp
      next
        case False
        obtain r4 s4 where f: "send_files_to_claude w (telegram_chat_id cfg) (tmux_session cfg) (pending_files s3) s3 = (r4, s4)"
          by (cases "send_files_to_claude w (telegram_chat_id cfg) (tmux_session cfg) (pending_files s3) s3")
        with quiet_send_files_to_claude [of s3 s3 w "telegram_chat_id cfg" "tmux_session cfg" "pending_files s3"]
        have q4: "quiet s3 s4" by simp
        show ?thesis
        proof (cases r4)
          case None
          with m \<open>r = None\<close> False f cursor_inv_quiet [OF q4 i3] show ?thesis by simp
        next
          case (Some e)
          from quiet_primitives(7) [OF q4, of w "telegram_chat_id cfg" "[10060] @ cp '' File send error: '' @ e" None]
          have "cursor_inv (snd (send_message w (telegram_chat_id cfg) ([10060] @ cp '' File send error: '' @ e) None s4))"
            using i3 by (rule cursor_inv_quiet)
          with m \<open>r = None\<close> False f Some show ?thesis
            by (simp split: prod.splits option.splits)
        qed
      qed
    qed
  qed
qed

lemma cursor_inv_main_loop:
  "cursor_inv s \<Longrightarrow> honours_cursor w \<Longrightarrow> cursor_inv (snd (main_loop w lib cfg n s))"
proof (induction n arbitrary: s)
  case 0
  then show ?case by simp
next
  case (Suc n)
  obtain r s1 where m: "main_iteration w lib cfg s = (r, s1)" by (cases "main_iteration w lib cfg s")
  with cursor_inv_main_iteration [OF Suc.prems, of lib cfg] have "cursor_inv s1" by simp
  with Suc.IH [OF _ Suc.prems(2)] m show ?case by (cases r) simp_all
qed

lemma cursor_inv_main:
  assumes "honours_cursor w"
  shows "cursor_inv (snd (main w lib cfg n))"
proof -
  let ?s0 = "snd (send_message w (telegram_chat_id cfg) ([128994] @ cp '' couchclaude online'') HTML initial_state)"
  have "cursor_inv initial_state" by (simp add: cursor_inv_def initial_state_def)
  with quiet_primitives(7) [OF quiet_refl] have i0: "cursor_inv ?s0" by (rule cursor_inv_quiet)
  obtain r s1 where l: "main_loop w lib cfg n ?s0 = (r, s1)" by (cases "main_loop w lib cfg n ?s0")
  with cursor_inv_main_loop [OF i0 assms, of lib cfg n] have i1: "cursor_inv s1" by simp
  from quiet_primitives(7) [OF quiet_refl] i1
  have "cursor_inv (snd (send_message w (telegram_chat_id cfg) ([128308] @ cp '' couchclaude offline'') HTML s1))"
    by (rule cursor_inv_quiet)
  with l i1 show ?thesis by (cases r) (simp_all add: main_def Let_def)
qed

lemma one_update_world_sel [simp]:
  "tmux_capture one_update_world tr = Inr []"
  "tmux_send_keys one_update_world tr = None"
  "telegram_send one_update_world tr = None"
  "clock_ms one_update_world tr = 0"
  "telegram_updates one_update_world tr =
     (if tr \<noteq> [] \<and> last tr = GetUpdates None 5 then Updates [text_update 7 42 (cp ''hi'')]
      else Updates [])"
  by (simp_all add: one_update_world_def example_world_def)

lemma honours_cursor_one_update_world: "honours_cursor one_update_world"
  by (simp add: honours_cursor_def)

lemma handle_hi:
  "handle_update one_update_world lib example_config (text_update 7 42 (cp ''hi'')) s =
     (None, s\<lparr>trace := trace s @
        [SendKeys (cp ''claude'') (cp ''hi''), Sleep 500, SaveSnapshot (cp ''claude''),
         SendMessage 42 ([128232] @ cp '' Sent to Claude'') HTML]\<rparr>)"
  by (simp add: handle_update_def text_update_def text_message_def example_config_def
      inject_and_report_def primitive_defs emit_def Let_def)
     (simp add: cp_def)

lemma main_two_iterations:
  "trace (snd (main one_update_world example_library example_config 2)) =
     [SendMessage 42 ([128994] @ cp '' couchclaude online'') HTML,
      GetUpdates None 5, Clock, CursorAdvanced 8,
      SendKeys (cp ''claude'') (cp ''hi''), Sleep 500, SaveSnapshot (cp ''claude''),
      SendMessage 42 ([128232] @ cp '' Sent to Claude'') HTML,
      GetUpdates (Some 8) 5, Clock,
      SendMessage 42 ([128308] @ cp '' couchclaude offline'') HTML]"
  by (simp add: main_def numeral_2_eq_2 main_iteration_def process_update_def handle_hi
      primitive_defs emit_def Let_def initial_state_def)
     (simp add: text_update_def example_config_def)

subsection \<open>Waiting and injecting\<close>

lemma wait_loop_trace:
  "\<exists>polls. trace (snd (wait_loop w session n s)) = trace s @ polls \<and>
           set polls \<subseteq> {CapturePane session 5, Sleep 1000}"
proof (induction n arbitrary: s)
  case 0
  show ?case by simp
next
  case (Suc n)
  let ?s1 = "emit (CapturePane session 5) s"
  from Suc.IH [of "sleep 1000 ?s1"] obtain polls where
    p: "trace (snd (wait_loop w session n (sleep 1000 ?s1))) = trace s @ [CapturePane session 5, Sleep 1000] @ polls"
    "set polls \<subseteq> {CapturePane session 5, Sleep 1000}"
    by (auto simp: sleep_def)
  show ?case
  proof (cases "tmux_capture w (trace ?s1)")
    case (Inl e)
    with p show ?thesis
      by (intro exI [of _ "[CapturePane session 5, Sleep 1000] @ polls"])
         (simp add: capture_pane_def Let_def)
  next
    case (Inr screen)
    show ?thesis
    proof (cases "INPUT_PROMPT_RE screen")
      case True
      with Inr show ?thesis
        by (intro exI [of _ "[CapturePane session 5]"]) (simp add: capture_pane_def Let_def)
    next
      case False
      with Inr p show ?thesis
        by (intro exI [of _ "[CapturePane session 5, Sleep 1000] @ polls"])
           (simp add: capture_pane_def Let_def)
    qed
  qed
qed

lemma wait_for_input_trace:
  "\<exists>polls. trace (snd (wait_for_input w session timeout s)) =
             trace s @ InputDeadline session timeout # polls \<and>
           set polls \<subseteq> {CapturePane session 5, Sleep 1000}"
  using wait_loop_trace [of w session "polls_before_deadline w (trace s @ [InputDeadline session timeout])"
      "emit (InputDeadline session timeout) s"]
  by (auto simp: wait_for_input_def Let_def)

lemma inject_files_trace:
  "\<exists>rest. trace (snd (inject_files w chat_id session p count s)) = trace s @ SendKeys session p # rest"
  by (simp add: inject_files_def primitive_defs Let_def emit_def split: option.splits)

lemma send_files_to_claude_trace:
  "\<exists>rest. trace (snd (send_files_to_claude w chat_id session files s)) =
            trace (snd (wait_for_input w session 30 s)) @ rest \<and>
          (if fst (wait_for_input w session 30 s)
           then take 1 rest = [SendKeys session (files_prompt files)]
           else take 1 rest = [SendMessage chat_id input_warning None] \<and>
                (telegram_send w (trace (snd (wait_for_input w session 30 s)) @
                                  [SendMessage chat_id input_warning None]) = None \<longrightarrow>
                 take 2 rest = [SendMessage chat_id input_warning None,
                                SendKeys session (files_prompt files)]))"
proof -
  obtain idle s1 where w: "wait_for_input w session 30 s = (idle, s1)"
    by (cases "wait_for_input w session 30 s")
  show ?thesis
  proof (cases idle)
    case True
    from inject_files_trace [of w chat_id session "files_prompt files" "length files" s1] w True
    show ?thesis
      by (auto simp: send_files_to_claude_def Let_def)
  next
    case False
    let ?s2 = "emit (SendMessage chat_id input_warning None) s1"
    show ?thesis
    proof (cases "telegram_send w (trace ?s2)")
      case (Some e)
      with w False show ?thesis
        by (intro exI [of _ "[SendMessage chat_id input_warning None]"])
           (simp add: send_files_to_claude_def Let_def send_message_def)
    next
      case None
      from inject_files_trace [of w chat_id session "files_prompt files" "length files" ?s2]
      obtain rest where
        "trace (snd (inject_files w chat_id session (files_prompt files) (length files) ?s2)) =
           trace ?s2 @ SendKeys session (files_prompt files) # rest"
        by blast
      with w False None show ?thesis
        by (intro exI [of _ "SendMessage chat_id input_warning None # SendKeys session (files_prompt files) # rest"])
           (simp add: send_files_to_claude_def Let_def send_message_def)
    qed
  qed
qed

lemma handle_update_plain_text:
  "plain_text cfg u = Some t \<Longrightarrow>
   handle_update w lib cfg u s =
     inject_and_report w (telegram_chat_id cfg) (tmux_session cfg) t
       ([128232] @ cp '' Sent to Claude'') (\<lambda>e. [10060] @ cp '' Could not send: '' @ e) s"
  by (auto simp: plain_text_def handle_update_def Let_def split: option.splits if_splits)

lemma inject_and_report_trace:
  "\<exists>rest. trace (snd (inject_and_report w chat_id session keys done failed s)) =
            trace s @ SendKeys session keys # rest \<and> \<not> list_ex is_wait rest"
  by (simp add: inject_and_report_def primitive_defs Let_def emit_def split: option.splits)

lemma offline_world_sel [simp]:
  "tmux_capture offline_world tr = Inr []"
  "tmux_send_keys offline_world tr = None"
  "telegram_send offline_world tr = Some (cp ''down'')"
  "polls_before_deadline offline_world tr = 1"
  "polls_before_deadline one_update_world tr = 1"
  by (simp_all add: offline_world_def one_update_world_def example_world_def)

lemma no_prompt_on_blank: "\<not> INPUT_PROMPT_RE []"
  by (simp add: INPUT_PROMPT_RE_def bare_prompt_line_def)

lemma send_files_example:
  "send_files_to_claude one_update_world 42 (cp ''claude'') [(cp ''/d/a.png'', [])] initial_state =
     (None, initial_state\<lparr>trace :=
        [InputDeadline (cp ''claude'') 30, CapturePane (cp ''claude'') 5, Sleep 1000,
         SendMessage 42 input_warning None,
         SendKeys (cp ''claude'') (cp ''The user sent a file from Telegram. View it at: /d/a.png''),
         Sleep 500, SaveSnapshot (cp ''claude''),
         SendMessage 42 ([128247, 32] @ cp ''Photo sent to Claude'') None]\<rparr>)"
  by (simp add: send_files_to_claude_def wait_for_input_def inject_files_def files_prompt_def
      primitive_defs emit_def Let_def initial_state_def no_prompt_on_blank)
     (simp add: cp_def)

lemma send_files_offline:
  "send_files_to_claude offline_world 42 (cp ''claude'') [(cp ''/d/a.png'', [])] initial_state =
     (Some (cp ''down''), initial_state\<lparr>trace :=
        [InputDeadline (cp ''claude'') 30, CapturePane (cp ''claude'') 5, Sleep 1000,
         SendMessage 42 input_warning None]\<rparr>)"
  by (simp add: send_files_to_claude_def wait_for_input_def inject_files_def files_prompt_def
      primitive_defs emit_def Let_def initial_state_def no_prompt_on_blank)

lemma plain_text_hi: "plain_text example_config (text_update 7 42 (cp ''hi'')) = Some (cp ''hi'')"
  by (simp add: plain_text_def text_update_def text_message_def example_config_def cp_def)

section \<open>The truncation law (C1)\<close>

text \<open>
  C1, as amended.  \<open>truncate_message\<close> returns a text that fits \<open>L\<close> unchanged.  For a longer
  text and \<open>L\<close> at least the marker length plus two, the result has length exactly \<open>L\<close> and is
  a non-empty prefix of the text (two thirds of \<open>L - length marker\<close>, rounded down), the marker,
  and a non-empty suffix of the text (the rest of the budget).
\<close>

theorem truncate_message_law:
  "int (length marker) + 2 \<le> L \<Longrightarrow>
   (if int (length text) \<le> L then truncate_message text L = text
    else (\<exists>h t. 0 < h \<and> 0 < t \<and> h = (nat L - length marker) * 2 div 3 \<and>
             h + t = nat L - length marker \<and>
             truncate_message text L = take h text @ marker @ drop (length text - t) text \<and>
             int (length (truncate_message text L)) = L))"
proof (cases "int (length text) \<le> L")
  case True
  then show ?thesis by (simp add: truncate_message_def)
next
  case False
  assume a: "int (length marker) + 2 \<le> L"
  define avail where "avail = nat L - length marker"
  define h where "h = avail * 2 div 3"
  define t where "t = avail - h"
  have av: "2 \<le> avail" "L - int (length marker) = int avail" using a by (auto simp: avail_def)
  have h: "0 < h" "h < avail" using av by (auto simp: h_def)
  have t: "0 < t" "h + t = avail" using h by (auto simp: t_def)
  have hh: "(L - int (length marker)) * 2 div 3 = int h"
    unfolding av(2) h_def by (simp add: zdiv_int)
  have tt: "L - int (length marker) - int h = int t" using t av by simp
  have tl: "t \<le> length text" using False t av a by linarith
  have eq: "truncate_message text L = take h text @ marker @ drop (length text - t) text"
  proof -
    have "truncate_message text L = slice_to text (int h) @ marker @ slice_from text (- int t)"
      using False unfolding truncate_message_def Let_def hh tt by simp
    then show ?thesis using t(1) by (simp add: slice_to_def slice_from_def)
  qed
  have len: "int (length (truncate_message text L)) = L"
    unfolding eq using tl t av h False by (simp add: min_def)
  have h2: "h = (nat L - length marker) * 2 div 3" by (simp add: h_def avail_def)
  have t2: "h + t = nat L - length marker" using t(2) by (simp add: avail_def)
  from h(1) t(1) h2 t2 eq len
  have "\<exists>h t. 0 < h \<and> 0 < t \<and> h = (nat L - length marker) * 2 div 3 \<and>
             h + t = nat L - length marker \<and>
             truncate_message text L = take h text @ marker @ drop (length text - t) text \<and>
             int (length (truncate_message text L)) = L"
    by blast
  then show ?thesis using False by simp
qed

text \<open>The law at \<open>L = 25\<close> on a text of 30 characters: four characters, the marker, two characters.\<close>

theorem truncate_message_law_witness:
  "int (length marker) + 2 \<le> 25 \<and>
   truncate_message (cp ''abcdefghijklmnopqrstuvwxyzABCD'') 25 = cp ''abcd'' @ marker @ cp ''CD''"
proof -
  let ?s = "cp ''abcdefghijklmnopqrstuvwxyzABCD''"
  have a: "int (length marker) + 2 \<le> 25" by (simp add: length_marker)
  have l: "length ?s = 30" by (simp add: cp_def)
  from truncate_message_law [OF a, of ?s] l obtain h t where
    ht: "h = (nat 25 - length marker) * 2 div 3" "h + t = nat 25 - length marker"
    and eq: "truncate_message ?s 25 = take h ?s @ marker @ drop (length ?s - t) ?s"
    by auto
  from ht have "h = 4" "t = 2" by (simp_all add: length_marker)
  with eq have "truncate_message ?s 25 = cp ''abcd'' @ marker @ cp ''CD''"
    by (simp add: cp_def)
  with a show ?thesis by simp
qed

text \<open>
  The claim as stated, for every \<open>L\<close> from the marker length on, fails below the marker length
  plus two.  At \<open>L = 20\<close> the head is \<open>1 * 2 div 3 = 0\<close> characters, so no prefix of the text is
  kept; at \<open>L = 19\<close> head and tail are both 0 and \<^verbatim>\<open>text[-0:]\<close> is the whole text, so the result
  is longer than the text it was to shorten.
\<close>

theorem truncate_message_counterexample:
  "truncate_message (cp ''abcdefghijklmnopqrstu'') 20 = marker @ cp ''u'' \<and>
   truncate_message (cp ''abcdefghijklmnopqrstu'') 19 = marker @ cp ''abcdefghijklmnopqrstu''"
  by (simp add: truncate_message_def length_marker cp_def slice_to_def slice_from_def)

section \<open>The sanitizer (C8)\<close>

text \<open>
  C8.  \<open>sanitize_text\<close> is a total function (it is defined by terminating recursion and has
  no failing branch), and sanitizing its own output changes nothing: the output holds no
  ESC, on which every alternative of \<open>ANSI_RE\<close> starts, and the character filter keeps what
  it has kept.
\<close>

theorem sanitize_text_idempotent:
  "sanitize_text lib (sanitize_text lib s) = sanitize_text lib s"
proof -
  have "ANSI_RE_sub (sanitize_text lib s) = sanitize_text lib s"
    by (rule ANSI_RE_sub_no_esc) (rule sanitize_text_no_esc)
  then have "sanitize_text lib (sanitize_text lib s) =
      filter (\<lambda>ch. ch = 10 \<or> ch = 9 \<or> \<not> category_C lib ch) (sanitize_text lib s)"
    by (simp add: sanitize_text_def)
  also have "\<dots> = sanitize_text lib s"
    by (simp add: sanitize_text_def)
  finally show ?thesis .
qed

section \<open>The coarse gate of the prompt classifier (C5)\<close>

text \<open>
  C5, as amended.  When the captured screen, stripped of surrounding white space, holds none
  of the chrome-hint phrases, \<open>check_for_prompts\<close> sends nothing, whatever numbered lines the
  screen shows: the capture is the only action it adds.  It clears the stored prompt hash
  when the stripped screen is not empty, and leaves the whole state as it is when the screen
  is blank.
\<close>

theorem no_chrome_no_prompt:
  assumes "captured w session s = Inr raw"
    and "\<not> re_search PROMPT_DETECT_RE (strip raw)"
  shows "check_for_prompts w lib chat_id session s =
           (if strip raw = [] then emit (CapturePane session 20) s
            else emit (CapturePane session 20) s\<lparr>last_prompt_hash := None\<rparr>)"
  using assms by (simp add: prompts_blank prompts_no_chrome)

text \<open>Two numbered lines without chrome: nothing is sent and the stored hash is cleared.\<close>

theorem no_chrome_no_prompt_witness:
  "check_for_prompts (example_world (\<lambda>tr. Inr options_screen) (\<lambda>tr. None) (\<lambda>tr. Updates []))
     example_library 42 (cp ''claude'') (initial_state\<lparr>last_prompt_hash := Some (cp ''0f'')\<rparr>)
   = initial_state\<lparr>trace := [CapturePane (cp ''claude'') 20]\<rparr>"
proof -
  let ?w = "example_world (\<lambda>tr. Inr options_screen) (\<lambda>tr. None) (\<lambda>tr. Updates [])"
  let ?s = "initial_state\<lparr>last_prompt_hash := Some (cp ''0f'')\<rparr>"
  have c: "captured ?w (cp ''claude'') ?s = Inr options_screen"
    by (simp add: captured_def)
  have n: "\<not> re_search PROMPT_DETECT_RE (strip options_screen)"
    by (simp add: strip_options_screen options_screen_no_chrome)
  have "strip options_screen \<noteq> []"
    by (simp add: strip_options_screen) (simp add: options_screen_def cp_def)
  with no_chrome_no_prompt [OF c n, of example_library 42] show ?thesis
    by (simp add: emit_def initial_state_def)
qed

text \<open>
  The claim as stated, for every captured screen without the phrases, fails on a blank
  capture: the guard \<^verbatim>\<open>if not screen: return\<close> comes before the gate, so the stored hash
  stays and a later identical prompt is not announced again.
\<close>

theorem blank_screen_keeps_prompt_hash:
  "\<not> re_search PROMPT_DETECT_RE [10, 10] \<and>
   last_prompt_hash
     (check_for_prompts (example_world (\<lambda>tr. Inr [10, 10]) (\<lambda>tr. None) (\<lambda>tr. Updates []))
        example_library 42 (cp ''claude'') (initial_state\<lparr>last_prompt_hash := Some (cp ''0f'')\<rparr>))
   = Some (cp ''0f'')"
proof -
  have "strip [10, 10] = []" by (simp add: strip_def lstrip_def rstrip_def isspace_def)
  moreover have "\<not> re_search PROMPT_DETECT_RE [10, 10]"
    by (simp add: PROMPT_DETECT_RE_def cp_def ci_eq_def lower_def)
  ultimately show ?thesis
    by (simp add: prompts_blank captured_def)
qed

section \<open>Deduplication by content hash (C7)\<close>

text \<open>
  C7.  For each classifier, take two consecutive checks whose captured screens yield a
  first and a second content, the first not yet announced.  When the hash of the second
  content equals that of the first, the two checks send exactly one notice, the one for the
  first content; when the hash differs, as it does after a change of a character that MD5
  separates, they send exactly two, the second for the new content.  In both cases the hash
  of the content last seen is the stored one.
\<close>

theorem dedup_emits_on_change:
  "(captured w session s = Inr raw \<and> prompt_content lib raw = Some t \<and>
    last_prompt_hash s \<noteq> Some (md5_hexdigest lib t) \<and>
    captured w session (check_for_prompts w lib chat_id session s) = Inr raw' \<and>
    prompt_content lib raw' = Some t' \<longrightarrow>
      notices (new_actions s
                 (check_for_prompts w lib chat_id session (check_for_prompts w lib chat_id session s))) =
        (if md5_hexdigest lib t' = md5_hexdigest lib t then [prompt_notice lib chat_id raw t]
         else [prompt_notice lib chat_id raw t, prompt_notice lib chat_id raw' t']) \<and>
      last_prompt_hash
        (check_for_prompts w lib chat_id session (check_for_prompts w lib chat_id session s)) =
        Some (md5_hexdigest lib t')) \<and>
   (captured v session z = Inr row \<and> ratelimit_content lib row = Some u \<and>
    last_ratelimit_hash z \<noteq> Some (md5_hexdigest lib u) \<and>
    captured v session (check_for_ratelimit v lib chat_id session z) = Inr row' \<and>
    ratelimit_content lib row' = Some u' \<longrightarrow>
      notices (new_actions z
                 (check_for_ratelimit v lib chat_id session (check_for_ratelimit v lib chat_id session z))) =
        (if md5_hexdigest lib u' = md5_hexdigest lib u then [ratelimit_notice lib chat_id row u]
         else [ratelimit_notice lib chat_id row u, ratelimit_notice lib chat_id row' u']) \<and>
      last_ratelimit_hash
        (check_for_ratelimit v lib chat_id session (check_for_ratelimit v lib chat_id session z)) =
        Some (md5_hexdigest lib u'))"
  using dedup_prompts [of w session s raw lib t _ chat_id raw' t', OF _ _ _ refl _ _ refl]
    dedup_ratelimit [of v session z row lib u _ chat_id row' u', OF _ _ _ refl _ _ refl]
  by blast

text \<open>
  The same prompt screen, and the same rate-limit banner, captured twice from the initial
  state: one notice each.
\<close>

theorem dedup_emits_on_change_witness:
  "notices (trace (check_for_prompts
                     (example_world (\<lambda>tr. Inr prompt_screen) (\<lambda>tr. None) (\<lambda>tr. Updates []))
                     example_library 42 (cp ''claude'')
                     (check_for_prompts
                        (example_world (\<lambda>tr. Inr prompt_screen) (\<lambda>tr. None) (\<lambda>tr. Updates []))
                        example_library 42 (cp ''claude'') initial_state))) =
     [prompt_notice example_library 42 prompt_screen
        (cp ''Do you want to allow it?'' @ [10, 10] @ cp ''1. Yes'')] \<and>
   notices (trace (check_for_ratelimit
                     (example_world (\<lambda>tr. Inr limit_screen) (\<lambda>tr. None) (\<lambda>tr. Updates []))
                     example_library 42 (cp ''claude'')
                     (check_for_ratelimit
                        (example_world (\<lambda>tr. Inr limit_screen) (\<lambda>tr. None) (\<lambda>tr. Updates []))
                        example_library 42 (cp ''claude'') initial_state))) =
     [ratelimit_notice example_library 42 limit_screen (cp ''hit your limit'')]"
proof -
  let ?pw = "example_world (\<lambda>tr. Inr prompt_screen) (\<lambda>tr. None) (\<lambda>tr. Updates [])"
  let ?rw = "example_world (\<lambda>tr. Inr limit_screen) (\<lambda>tr. None) (\<lambda>tr. Updates [])"
  have i: "last_prompt_hash initial_state = None" "last_ratelimit_hash initial_state = None"
    "trace initial_state = []"
    by (simp_all add: initial_state_def)
  have n: "new_actions initial_state s = trace s" for s
    by (simp add: new_actions_def i)
  have c: "captured ?pw (cp ''claude'') s = Inr prompt_screen"
    "captured ?rw (cp ''claude'') s = Inr limit_screen" for s
    by (simp_all add: captured_def)
  from dedup_emits_on_change [where w = ?pw and session = "cp ''claude''" and s = initial_state
      and raw = prompt_screen and lib = example_library and chat_id = 42 and raw' = prompt_screen
      and t = "cp ''Do you want to allow it?'' @ [10, 10] @ cp ''1. Yes''"
      and t' = "cp ''Do you want to allow it?'' @ [10, 10] @ cp ''1. Yes''"
      and v = ?rw and z = initial_state and row = limit_screen and row' = limit_screen
      and u = "cp ''hit your limit''" and u' = "cp ''hit your limit''"]
  show ?thesis
    by (simp add: c i n prompt_content_example ratelimit_content_example)
qed

section \<open>Failed sends and the stored hash (C10)\<close>

text \<open>
  C10.  In a world in which every send fails and the captured screen stays the same, a
  check that finds content not yet announced stores its hash and makes both send attempts,
  the formatted one and the plain-text one; each of the \<open>n\<close> checks that follow only captures
  the screen.  The event is not announced again, although no message was delivered.  This
  holds for the prompt classifier and for the rate-limit classifier.
\<close>

theorem failed_sends_stay_suppressed:
  assumes fail: "\<forall>tr. telegram_send w tr \<noteq> None"
    and cap: "\<forall>tr. tmux_capture w tr = Inr raw"
  shows "(prompt_content lib raw = Some t \<and> last_prompt_hash s \<noteq> Some (md5_hexdigest lib t) \<longrightarrow>
            last_prompt_hash (check_for_prompts w lib chat_id session s) = Some (md5_hexdigest lib t) \<and>
            trace (((check_for_prompts w lib chat_id session) ^^ n)
                     (check_for_prompts w lib chat_id session s)) =
              trace s @ [CapturePane session 20, prompt_notice lib chat_id raw t, prompt_fallback chat_id t]
                @ replicate n (CapturePane session 20)) \<and>
         (ratelimit_content lib raw = Some t' \<and> last_ratelimit_hash s \<noteq> Some (md5_hexdigest lib t') \<longrightarrow>
            last_ratelimit_hash (check_for_ratelimit w lib chat_id session s) = Some (md5_hexdigest lib t') \<and>
            trace (((check_for_ratelimit w lib chat_id session) ^^ n)
                     (check_for_ratelimit w lib chat_id session s)) =
              trace s @ [CapturePane session 20, ratelimit_notice lib chat_id raw t',
                         ratelimit_fallback lib chat_id raw t']
                @ replicate n (CapturePane session 20))"
proof (intro conjI impI)
  have c: "captured w session s = Inr raw" using cap by (simp add: captured_def)
  {
    assume a: "prompt_content lib raw = Some t \<and> last_prompt_hash s \<noteq> Some (md5_hexdigest lib t)"
    note p = prompts_announced_trace [OF c conjunct1 [OF a] conjunct2 [OF a], of chat_id]
    show "last_prompt_hash (check_for_prompts w lib chat_id session s) = Some (md5_hexdigest lib t)"
      by (rule p(1))
    show "trace (((check_for_prompts w lib chat_id session) ^^ n)
                     (check_for_prompts w lib chat_id session s)) =
              trace s @ [CapturePane session 20, prompt_notice lib chat_id raw t, prompt_fallback chat_id t]
                @ replicate n (CapturePane session 20)"
      using fail p(2) by (simp add: unchanged_screen_prompts [OF cap conjunct1 [OF a] p(1)])
  }
  {
    assume a: "ratelimit_content lib raw = Some t' \<and> last_ratelimit_hash s \<noteq> Some (md5_hexdigest lib t')"
    note p = ratelimit_announced_trace [OF c conjunct1 [OF a] conjunct2 [OF a], of chat_id]
    show "last_ratelimit_hash (check_for_ratelimit w lib chat_id session s) = Some (md5_hexdigest lib t')"
      by (rule p(1))
    show "trace (((check_for_ratelimit w lib chat_id session) ^^ n)
                     (check_for_ratelimit w lib chat_id session s)) =
              trace s @ [CapturePane session 20, ratelimit_notice lib chat_id raw t',
                         ratelimit_fallback lib chat_id raw t']
                @ replicate n (CapturePane session 20)"
      using fail p(3) by (simp add: unchanged_screen_ratelimit [OF cap conjunct1 [OF a] p(1)])
  }
qed

text \<open>Three checks of each classifier in a world whose every send fails.\<close>

theorem failed_sends_stay_suppressed_witness:
  "trace (((check_for_prompts (example_world (\<lambda>tr. Inr prompt_screen) (\<lambda>tr. Some (cp ''down'')) (\<lambda>tr. Updates []))
              example_library 42 (cp ''claude'')) ^^ 2)
            (check_for_prompts (example_world (\<lambda>tr. Inr prompt_screen) (\<lambda>tr. Some (cp ''down'')) (\<lambda>tr. Updates []))
              example_library 42 (cp ''claude'') initial_state)) =
     [CapturePane (cp ''claude'') 20,
      prompt_notice example_library 42 prompt_screen (cp ''Do you want to allow it?'' @ [10, 10] @ cp ''1. Yes''),
      prompt_fallback 42 (cp ''Do you want to allow it?'' @ [10, 10] @ cp ''1. Yes''),
      CapturePane (cp ''claude'') 20, CapturePane (cp ''claude'') 20] \<and>
   trace (((check_for_ratelimit (example_world (\<lambda>tr. Inr limit_screen) (\<lambda>tr. Some (cp ''down'')) (\<lambda>tr. Updates []))
              example_library 42 (cp ''claude'')) ^^ 2)
            (check_for_ratelimit (example_world (\<lambda>tr. Inr limit_screen) (\<lambda>tr. Some (cp ''down'')) (\<lambda>tr. Updates []))
              example_library 42 (cp ''claude'') initial_state)) =
     [CapturePane (cp ''claude'') 20,
      ratelimit_notice example_library 42 limit_screen (cp ''hit your limit''),
      ratelimit_fallback example_library 42 limit_screen (cp ''hit your limit''),
      CapturePane (cp ''claude'') 20, CapturePane (cp ''claude'') 20]"
proof -
  let ?pw = "example_world (\<lambda>tr. Inr prompt_screen) (\<lambda>tr. Some (cp ''down'')) (\<lambda>tr. Updates [])"
  let ?rw = "example_world (\<lambda>tr. Inr limit_screen) (\<lambda>tr. Some (cp ''down'')) (\<lambda>tr. Updates [])"
  have i: "last_prompt_hash initial_state = None" "last_ratelimit_hash initial_state = None"
    "trace initial_state = []"
    by (simp_all add: initial_state_def)
  have pf: "\<forall>tr. telegram_send ?pw tr \<noteq> None" and pc: "\<forall>tr. tmux_capture ?pw tr = Inr prompt_screen"
    and rf: "\<forall>tr. telegram_send ?rw tr \<noteq> None" and rc: "\<forall>tr. tmux_capture ?rw tr = Inr limit_screen"
    by simp_all
  from failed_sends_stay_suppressed [OF pf pc, where lib = example_library and s = initial_state
      and t = "cp ''Do you want to allow it?'' @ [10, 10] @ cp ''1. Yes''"
      and chat_id = 42 and session = "cp ''claude''" and n = 2]
    failed_sends_stay_suppressed [OF rf rc, where lib = example_library and s = initial_state
      and t' = "cp ''hit your limit''" and chat_id = 42 and session = "cp ''claude''" and n = 2]
  show ?thesis
    by (simp add: i prompt_content_example ratelimit_content_example numeral_2_eq_2)
qed

section \<open>The recovery notification (C2)\<close>

text \<open>
  C2, as amended.  In every run of the rate-limit classifier from the initial state, over
  whatever screens the world shows, each recovery notice in the trace comes after a
  rate-limit notice with no other recovery notice in between: none at startup, and at most
  one for each time the limited state is entered.  A check whose sanitized, stripped screen
  is not empty and shows no limit phrase sends the recovery notice exactly when the state is
  limited, once, and leaves the state not limited.  A check whose screen shows a limit phrase
  sends no recovery notice.  A check whose screen is blank does nothing but capture: the
  recovery then waits for the first screen that is not blank.
\<close>

theorem recovery_once_per_clearing:
  "limited_after chat_id False
     (trace (((check_for_ratelimit w lib chat_id session) ^^ n) initial_state)) =
     Some (ratelimit_waiting (((check_for_ratelimit w lib chat_id session) ^^ n) initial_state)) \<and>
   (captured w session s = Inr raw \<and> strip (sanitize_text lib raw) \<noteq> [] \<and>
    \<not> re_search RATELIMIT_RE (strip (sanitize_text lib raw)) \<longrightarrow>
      new_actions s (check_for_ratelimit w lib chat_id session s) =
        CapturePane session 20 # (if ratelimit_waiting s then [recovery_notice chat_id] else []) \<and>
      \<not> ratelimit_waiting (check_for_ratelimit w lib chat_id session s)) \<and>
   (captured w session s = Inr raw \<and> re_search RATELIMIT_RE (strip (sanitize_text lib raw)) \<longrightarrow>
      recovery_notice chat_id \<notin> set (new_actions s (check_for_ratelimit w lib chat_id session s))) \<and>
   (captured w session s = Inr raw \<and> strip (sanitize_text lib raw) = [] \<longrightarrow>
      check_for_ratelimit w lib chat_id session s = emit (CapturePane session 20) s)"
proof (intro conjI impI)
  show "limited_after chat_id False
     (trace (((check_for_ratelimit w lib chat_id session) ^^ n) initial_state)) =
     Some (ratelimit_waiting (((check_for_ratelimit w lib chat_id session) ^^ n) initial_state))"
    by (rule ratelimit_run_alternates)
next
  assume a: "captured w session s = Inr raw \<and> strip (sanitize_text lib raw) \<noteq> [] \<and>
    \<not> re_search RATELIMIT_RE (strip (sanitize_text lib raw))"
  then have c: "check_for_ratelimit w lib chat_id session s =
     (if ratelimit_waiting s
      then emit (recovery_notice chat_id) (emit (CapturePane session 20) s)
             \<lparr>ratelimit_waiting := False, last_ratelimit_hash := None\<rparr>
      else emit (CapturePane session 20) s\<lparr>last_ratelimit_hash := None\<rparr>)"
    by (simp add: ratelimit_clear)
  show "new_actions s (check_for_ratelimit w lib chat_id session s) =
        CapturePane session 20 # (if ratelimit_waiting s then [recovery_notice chat_id] else [])"
    by (simp add: c)
  show "\<not> ratelimit_waiting (check_for_ratelimit w lib chat_id session s)"
    by (simp add: c)
next
  assume "captured w session s = Inr raw \<and> re_search RATELIMIT_RE (strip (sanitize_text lib raw))"
  then show "recovery_notice chat_id \<notin> set (new_actions s (check_for_ratelimit w lib chat_id session s))"
    by (simp add: ratelimit_signature_no_recovery)
next
  assume "captured w session s = Inr raw \<and> strip (sanitize_text lib raw) = []"
  then show "check_for_ratelimit w lib chat_id session s = emit (CapturePane session 20) s"
    by (simp add: ratelimit_blank)
qed

text \<open>
  The banner and then an ordinary screen: the run enters the limited state, sends one
  recovery notice and leaves the limited state.
\<close>

theorem recovery_once_per_clearing_witness:
  "ratelimit_waiting
     (check_for_ratelimit (limit_then (cp ''ok'')) example_library 42 (cp ''claude'') initial_state) \<and>
   trace
     (check_for_ratelimit (limit_then (cp ''ok'')) example_library 42 (cp ''claude'')
        (check_for_ratelimit (limit_then (cp ''ok'')) example_library 42 (cp ''claude'') initial_state)) =
     [CapturePane (cp ''claude'') 20,
      ratelimit_notice example_library 42 limit_screen (cp ''hit your limit''),
      CapturePane (cp ''claude'') 20, recovery_notice 42] \<and>
   \<not> ratelimit_waiting
     (check_for_ratelimit (limit_then (cp ''ok'')) example_library 42 (cp ''claude'')
        (check_for_ratelimit (limit_then (cp ''ok'')) example_library 42 (cp ''claude'') initial_state))"
proof -
  let ?w = "limit_then (cp ''ok'')"
  let ?s = "check_for_ratelimit ?w example_library 42 (cp ''claude'') initial_state"
  have f: "trace ?s = [CapturePane (cp ''claude'') 20,
                       ratelimit_notice example_library 42 limit_screen (cp ''hit your limit'')]"
    "ratelimit_waiting ?s"
    by (rule first_limit_check; simp)+
  have c: "captured ?w (cp ''claude'') ?s = Inr (cp ''ok'')"
    by (simp add: captured_def f)
  let ?s' = "check_for_ratelimit ?w example_library 42 (cp ''claude'') ?s"
  from recovery_once_per_clearing [where w = ?w and lib = example_library and chat_id = 42
      and session = "cp ''claude''" and s = ?s and raw = "cp ''ok''" and n = 0] c f(2)
  have n: "new_actions ?s ?s' = [CapturePane (cp ''claude'') 20, recovery_notice 42]"
    "\<not> ratelimit_waiting ?s'"
    by (simp_all add: ok_screen)
  from ratelimit_step [of ?w example_library 42 "cp ''claude''" ?s] obtain as where
    e: "trace ?s' = trace ?s @ as" by blast
  then have "new_actions ?s ?s' = as" by (rule new_actions_append)
  with n(1) e f(1) have "trace ?s' =
     [CapturePane (cp ''claude'') 20,
      ratelimit_notice example_library 42 limit_screen (cp ''hit your limit''),
      CapturePane (cp ''claude'') 20, recovery_notice 42]"
    by simp
  with f(2) n(2) show ?thesis by blast
qed

text \<open>
  The claim as stated, one recovery notice for each transition from the limited state to a
  screen without the limit signature, fails when that screen is blank: the guard
  \<^verbatim>\<open>if not clean: return\<close> comes before the signature test, so nothing is sent and the state
  stays limited.
\<close>

theorem blank_screen_defers_recovery:
  "ratelimit_waiting
     (check_for_ratelimit (limit_then []) example_library 42 (cp ''claude'') initial_state) \<and>
   captured (limit_then []) (cp ''claude'')
     (check_for_ratelimit (limit_then []) example_library 42 (cp ''claude'') initial_state) = Inr [] \<and>
   \<not> re_search RATELIMIT_RE (strip (sanitize_text example_library [])) \<and>
   check_for_ratelimit (limit_then []) example_library 42 (cp ''claude'')
     (check_for_ratelimit (limit_then []) example_library 42 (cp ''claude'') initial_state) =
   emit (CapturePane (cp ''claude'') 20)
     (check_for_ratelimit (limit_then []) example_library 42 (cp ''claude'') initial_state)"
proof -
  let ?w = "limit_then []"
  let ?s = "check_for_ratelimit ?w example_library 42 (cp ''claude'') initial_state"
  have f: "trace ?s = [CapturePane (cp ''claude'') 20,
                       ratelimit_notice example_library 42 limit_screen (cp ''hit your limit'')]"
    "ratelimit_waiting ?s"
    by (rule first_limit_check; simp)+
  have c: "captured ?w (cp ''claude'') ?s = Inr []"
    by (simp add: captured_def f)
  from ratelimit_blank [OF c, of example_library 42] f(2) c show ?thesis
    by (simp add: ok_screen)
qed

section \<open>Order and labels of the extracted options (C6)\<close>

text \<open>
  C6.  The options that \<open>parse_prompt_parts\<close> returns are the option texts of the option lines
  of the sanitized screen, in the order of the lines; the number in an option text is the run
  of digits as it stands in its line, followed by a dot, a space and the stripped label.  For
  the two lines of the example (in every library in which U+276F is not of category C) the
  options are \<^verbatim>\<open>1. Yes\<close> and \<^verbatim>\<open>2. No\<close> in this order, and the buttons made of them carry the
  payloads \<^verbatim>\<open>1\<close> and \<^verbatim>\<open>2\<close> and the labels \<^verbatim>\<open>Yes\<close> and \<^verbatim>\<open>No\<close> after their emojis.
\<close>

theorem options_keep_order_and_labels:
  "(parse_prompt_parts lib screen = Some parsed \<longrightarrow>
      options parsed =
        map (option_text lib) (filter (is_option_line lib) (splitlines (sanitize_text lib screen))) \<and>
      (\<forall>line. is_option_line lib line \<longrightarrow>
         (\<exists>g2. option_text lib line =
                 takeWhile (isdecimal lib) (dropWhile option_lead line) @ cp ''. '' @ strip g2))) \<and>
   (\<not> other_category_C lib 10095 \<longrightarrow>
      parse_prompt_parts lib yes_no_screen =
        Some \<lparr>question = None, options = [cp ''1. Yes'', cp ''2. No'']\<rparr> \<and>
      prompt_buttons lib yes_no_screen =
        [\<lparr>button_text = [9989] @ cp '' Yes'', callback_data = cp ''1''\<rparr>,
         \<lparr>button_text = [128260] @ cp '' No'', callback_data = cp ''2''\<rparr>])"
  using parse_prompt_parts_options [of lib screen parsed] option_text_digits [of lib]
    parse_yes_no [of lib] buttons_yes_no [of lib]
  by blast

text \<open>The example in the example library.\<close>

theorem options_keep_order_and_labels_witness:
  "\<not> other_category_C example_library 10095 \<and>
   parse_prompt_parts example_library yes_no_screen =
     Some \<lparr>question = None, options = [cp ''1. Yes'', cp ''2. No'']\<rparr> \<and>
   map (option_text example_library)
     (filter (is_option_line example_library) (splitlines (sanitize_text example_library yes_no_screen))) =
     [cp ''1. Yes'', cp ''2. No'']"
proof -
  have n: "\<not> other_category_C example_library 10095" by (simp add: example_library_def)
  with options_keep_order_and_labels [of example_library yes_no_screen
      "\<lparr>question = None, options = [cp ''1. Yes'', cp ''2. No'']\<rparr>"]
  show ?thesis by simp
qed

section \<open>The allow-listed chat (C9)\<close>

text \<open>
  C9.  An update whose chat of origin is not the configured chat identifier is handled by
  doing nothing: no action is added to the trace (no keystroke, no download, no command, no
  reply) and no file is queued.  A whole batch of such updates only moves the cursor.
\<close>

theorem unauthorized_updates_reach_nothing:
  "(origin_chat u \<noteq> Some (telegram_chat_id cfg) \<longrightarrow> handle_update w lib cfg u s = (None, s)) \<and>
   ((\<forall>u\<in>set us. origin_chat u \<noteq> Some (telegram_chat_id cfg)) \<longrightarrow>
      process_updates w lib cfg us s =
        (None, s\<lparr>offset := (if us = [] then offset s else Some (update_id (last us) + 1)),
                 trace := trace s @ map (\<lambda>u. CursorAdvanced (update_id u + 1)) us\<rparr>))"
  using handle_update_unauthorized [of u cfg w lib s] process_updates_unauthorized [of us cfg w lib s]
  by blast

text \<open>A shell command sent from another chat: only the cursor moves.\<close>

theorem unauthorized_updates_reach_nothing_witness:
  "origin_chat (text_update 7 666 (cp ''/cmd rm -rf ~'')) \<noteq> Some (telegram_chat_id example_config) \<and>
   handle_update one_update_world example_library example_config
     (text_update 7 666 (cp ''/cmd rm -rf ~'')) initial_state = (None, initial_state) \<and>
   process_updates one_update_world example_library example_config
     [text_update 7 666 (cp ''/cmd rm -rf ~'')] initial_state =
     (None, initial_state\<lparr>offset := Some 8, trace := [CursorAdvanced 8]\<rparr>)"
proof -
  have o: "origin_chat (text_update 7 666 (cp ''/cmd rm -rf ~'')) \<noteq> Some (telegram_chat_id example_config)"
    by (simp add: origin_chat_def text_update_def text_message_def example_config_def)
  with unauthorized_updates_reach_nothing [of "text_update 7 666 (cp ''/cmd rm -rf ~'')" example_config
      one_update_world example_library initial_state "[text_update 7 666 (cp ''/cmd rm -rf ~'')]"]
  show ?thesis
    by (simp add: text_update_def initial_state_def)
qed

section \<open>The update cursor (C4)\<close>

text \<open>
  C4, as amended.  The loop body sets the cursor to the identifier of the update plus one as
  its first step, before the update is handled, and the handling never sets the cursor.
  When the transport honours the cursor (each poll returns updates with increasing
  identifiers, none below the cursor it was made with), the values the cursor takes along
  any run of \<open>main\<close> are strictly increasing, so no update identifier is processed twice
  across loop iterations.
\<close>

theorem cursor_advances_before_handling:
  "(\<exists>as. trace (snd (process_update w lib cfg u s)) =
           trace s @ CursorAdvanced (update_id u + 1) # as \<and>
         cursor_events as = [] \<and>
         offset (snd (process_update w lib cfg u s)) = Some (update_id u + 1)) \<and>
   (honours_cursor w \<longrightarrow> sorted_wrt (<) (cursor_events (trace (snd (main w lib cfg n)))))"
  using process_update_cursor [of w lib cfg u s] cursor_inv_main [of w lib cfg n]
  by (simp add: cursor_inv_def)

text \<open>
  Two iterations against a transport that delivers update 7 once: the cursor is set once,
  to 8.
\<close>

theorem cursor_advances_before_handling_witness:
  "honours_cursor one_update_world \<and>
   cursor_events (trace (snd (main one_update_world example_library example_config 2))) = [8] \<and>
   sorted_wrt (<) (cursor_events (trace (snd (main one_update_world example_library example_config 2))))"
  using cursor_advances_before_handling [of one_update_world example_library example_config _ _ 2]
  by (simp add: honours_cursor_one_update_world main_two_iterations)

text \<open>
  The claim as stated has the cursor advanced strictly after the update has been fully
  handled.  In the code the assignment is the first statement of the loop body: for update 7
  the cursor is 8 before the text is injected, and the last action of the step is the
  acknowledgement, not the cursor assignment.
\<close>

theorem cursor_advanced_first:
  "trace (snd (process_update one_update_world example_library example_config
                 (text_update 7 42 (cp ''hi'')) initial_state)) =
     [CursorAdvanced 8,
      SendKeys (cp ''claude'') (cp ''hi''), Sleep 500, SaveSnapshot (cp ''claude''),
      SendMessage 42 ([128232] @ cp '' Sent to Claude'') HTML] \<and>
   last (trace (snd (process_update one_update_world example_library example_config
                        (text_update 7 42 (cp ''hi'')) initial_state))) \<noteq> CursorAdvanced 8"
  by (simp add: process_update_def handle_hi emit_def initial_state_def)
     (simp add: text_update_def)

section \<open>Waiting for the input prompt before injecting (C3)\<close>

text \<open>
  C3, as amended.  \<open>send_files_to_claude\<close>, through which every batch of attachment
  references is injected, first waits for the input prompt with a timeout of 30 seconds:
  its trace starts with the deadline and the polls of the wait (captures of five lines and
  sleeps of one second), and no keystroke is sent before the wait is over.  When the prompt
  was seen the injection follows at once; when the wait timed out the warning is sent to the
  chat, and when that send succeeds the injection follows.  A forwarded plain chat message
  is injected at once: the injection is the first action of its handling, and no wait occurs
  in it.
\<close>

theorem waits_before_files_only:
  "(\<exists>polls rest.
      trace (snd (wait_for_input w session 30 s)) = trace s @ InputDeadline session 30 # polls \<and>
      set polls \<subseteq> {CapturePane session 5, Sleep 1000} \<and>
      trace (snd (send_files_to_claude w chat_id session files s)) =
        trace (snd (wait_for_input w session 30 s)) @ rest \<and>
      (if fst (wait_for_input w session 30 s)
       then take 1 rest = [SendKeys session (files_prompt files)]
       else take 1 rest = [SendMessage chat_id input_warning None] \<and>
            (telegram_send w (trace (snd (wait_for_input w session 30 s)) @
                              [SendMessage chat_id input_warning None]) = None \<longrightarrow>
             take 2 rest = [SendMessage chat_id input_warning None,
                            SendKeys session (files_prompt files)]))) \<and>
   (plain_text cfg u = Some t \<longrightarrow>
      (\<exists>rest. trace (snd (handle_update w lib cfg u s)) =
                trace s @ SendKeys (tmux_session cfg) t # rest \<and>
              \<not> list_ex is_wait rest))"
proof (intro conjI impI)
  from wait_for_input_trace [of w session 30 s] send_files_to_claude_trace [of w chat_id session files s]
  show "\<exists>polls rest.
      trace (snd (wait_for_input w session 30 s)) = trace s @ InputDeadline session 30 # polls \<and>
      set polls \<subseteq> {CapturePane session 5, Sleep 1000} \<and>
      trace (snd (send_files_to_claude w chat_id session files s)) =
        trace (snd (wait_for_input w session 30 s)) @ rest \<and>
      (if fst (wait_for_input w session 30 s)
       then take 1 rest = [SendKeys session (files_prompt files)]
       else take 1 rest = [SendMessage chat_id input_warning None] \<and>
            (telegram_send w (trace (snd (wait_for_input w session 30 s)) @
                              [SendMessage chat_id input_warning None]) = None \<longrightarrow>
             take 2 rest = [SendMessage chat_id input_warning None,
                            SendKeys session (files_prompt files)]))"
    by blast
next
  assume "plain_text cfg u = Some t"
  then show "\<exists>rest. trace (snd (handle_update w lib cfg u s)) =
                trace s @ SendKeys (tmux_session cfg) t # rest \<and>
              \<not> list_ex is_wait rest"
    by (simp add: handle_update_plain_text inject_and_report_trace)
qed

text \<open>
  One photo after a wait that times out (warning, then injection), and the message \<^verbatim>\<open>hi\<close>
  (injection first).
\<close>

theorem waits_before_files_only_witness:
  "plain_text example_config (text_update 7 42 (cp ''hi'')) = Some (cp ''hi'') \<and>
   \<not> fst (wait_for_input one_update_world (cp ''claude'') 30 initial_state) \<and>
   telegram_send one_update_world
     (trace (snd (wait_for_input one_update_world (cp ''claude'') 30 initial_state)) @
      [SendMessage 42 input_warning None]) = None \<and>
   take 5 (trace (snd (send_files_to_claude one_update_world 42 (cp ''claude'')
                         [(cp ''/d/a.png'', [])] initial_state))) =
     [InputDeadline (cp ''claude'') 30, CapturePane (cp ''claude'') 5, Sleep 1000,
      SendMessage 42 input_warning None,
      SendKeys (cp ''claude'') (cp ''The user sent a file from Telegram. View it at: /d/a.png'')] \<and>
   take 1 (trace (snd (handle_update one_update_world example_library example_config
                         (text_update 7 42 (cp ''hi'')) initial_state))) =
     [SendKeys (cp ''claude'') (cp ''hi'')]"
proof -
  have w: "wait_for_input one_update_world (cp ''claude'') 30 initial_state =
             (False, initial_state\<lparr>trace := [InputDeadline (cp ''claude'') 30,
                CapturePane (cp ''claude'') 5, Sleep 1000]\<rparr>)"
    by (simp add: wait_for_input_def primitive_defs emit_def Let_def initial_state_def no_prompt_on_blank)
  from waits_before_files_only [of one_update_world "cp ''claude''" initial_state 42
      "[(cp ''/d/a.png'', [])]" example_config "text_update 7 42 (cp ''hi'')" "cp ''hi''" example_library]
  obtain rest where
    "trace (snd (handle_update one_update_world example_library example_config
                   (text_update 7 42 (cp ''hi'')) initial_state)) =
       trace initial_state @ SendKeys (tmux_session example_config) (cp ''hi'') # rest"
    using plain_text_hi by blast
  then have "take 1 (trace (snd (handle_update one_update_world example_library example_config
                         (text_update 7 42 (cp ''hi'')) initial_state))) =
     [SendKeys (cp ''claude'') (cp ''hi'')]"
    by (simp add: initial_state_def example_config_def)
  then show ?thesis
    by (simp add: plain_text_hi w send_files_example)
qed

text \<open>
  The claim as stated, a wait before every injection of a new unit of work and an injection
  after every timeout, fails on both counts.  The plain chat message \<^verbatim>\<open>hi\<close> is sent to the
  terminal with no wait before it; and when the wait for a batch of files times out and the
  warning cannot be sent, \<open>send_files_to_claude\<close> is left by the exception and nothing is
  injected.
\<close>

theorem plain_message_injected_without_wait:
  "plain_text example_config (text_update 7 42 (cp ''hi'')) = Some (cp ''hi'') \<and>
   handle_update one_update_world example_library example_config
     (text_update 7 42 (cp ''hi'')) initial_state =
     (None, initial_state\<lparr>trace :=
        [SendKeys (cp ''claude'') (cp ''hi''), Sleep 500, SaveSnapshot (cp ''claude''),
         SendMessage 42 ([128232] @ cp '' Sent to Claude'') HTML]\<rparr>) \<and>
   send_files_to_claude offline_world 42 (cp ''claude'') [(cp ''/d/a.png'', [])] initial_state =
     (Some (cp ''down''), initial_state\<lparr>trace :=
        [InputDeadline (cp ''claude'') 30, CapturePane (cp ''claude'') 5, Sleep 1000,
         SendMessage 42 input_warning None]\<rparr>)"
  by (simp add: plain_text_hi handle_hi send_files_offline) (simp add: initial_state_def)

end
